theory Spec2Isabelle
  imports Complex_Main "HOL-Library.Multiset"
begin

section \<open>Values and report objects\<close>

text \<open>
  The objects the review pipeline handles come out of \<open>JSON.parse\<close>: a value is null, a
  boolean, a number, a string, an array or an object. An array is an object too, so it
  carries, beside its elements, the named properties an assignment may add to it; the
  arrays \<open>JSON.parse\<close> builds have none. An object is the list of its properties, with
  distinct keys. Numbers are modelled by their rational value; strings by lists of 8-bit
  characters.
\<close>

datatype json =
    JNull
  | JBool bool
  | JNum rat
  | JStr string
  | JArr "json list" "(string \<times> json) list"
  | JObj "(string \<times> json) list"

text \<open>
  A report, as \<open>GeminiClient.parseAnalysisResponse\<close> builds it (part_002) and as the
  dashboard functions of app.js read it. The summary and the issue list are type
  parameters: the client stores the values of the model's reply (\<open>json\<close>), the dashboard
  functions read a summary with numeric counts and issues with string fields.
\<close>

record ('s, 'i) report =
  report_id :: string
  filename :: string
  status :: string
  timestamp :: string
  report_summary :: 's
  issues :: 'i
  recommendations :: json
  positive_aspects :: json

text \<open>
  The summary of the prompt's schema. A field is \<open>None\<close> when the property is missing
  (\<open>undefined\<close>).
\<close>

record summary =
  total_issues :: "int option"
  high_severity_issues :: "int option"
  medium_severity_issues :: "int option"
  low_severity_issues :: "int option"
  overall_quality_score :: "int option"
  security_score :: "int option"
  performance_score :: "int option"

text \<open>An issue of the prompt's schema; \<open>itype\<close> is the property \<open>type\<close>.\<close>

record issue =
  itype :: "string option"
  severity :: "string option"
  line :: "int option"
  message :: string
  suggestion :: string

type_synonym ui_report = "(summary option, issue list option) report"

text \<open>
  Strings: \<open>toLowerCase\<close> on the characters of Latin-1, the white space of the
  regular expression class \<open>\s\<close> and of \<open>trim\<close>, and the last segment of
  \<open>s.split('.')\<close>, which is the whole string when it has no dot.
\<close>

definition lower_char :: "char \<Rightarrow> char" where
  "lower_char c =
     (let n = (of_char c :: nat)
      in if (65 \<le> n \<and> n \<le> 90) \<or> (192 \<le> n \<and> n \<le> 222 \<and> n \<noteq> 215)
         then char_of (n + 32) else c)"

definition toLowerCase :: "string \<Rightarrow> string" where
  "toLowerCase s = map lower_char s"

definition is_space :: "char \<Rightarrow> bool" where
  "is_space c = ((of_char c :: nat) \<in> {9, 10, 11, 12, 13, 32, 160})"

definition trim :: "string \<Rightarrow> string" where
  "trim s = rev (dropWhile is_space (rev (dropWhile is_space s)))"

definition split_dot_pop :: "string \<Rightarrow> string" where
  "split_dot_pop s = rev (takeWhile (\<lambda>c. c \<noteq> CHR ''.'') (rev s))"

section \<open>Scores (app.js)\<close>

text \<open>\<open>(x || 0)\<close> on a count: a missing count gives 0, a count gives itself.\<close>

definition or0 :: "int option \<Rightarrow> int" where
  "or0 x = (case x of None \<Rightarrow> 0 | Some n \<Rightarrow> n)"

text \<open>
  \<open>calculateQualityScore(summary)\<close>, app.js 2583-2593. The counts are integers, so the
  score is one and \<open>Math.round\<close> leaves it as it is. \<open>None\<close> is a summary that is
  \<open>null\<close> or \<open>undefined\<close>.
\<close>

definition calculateQualityScore :: "summary option \<Rightarrow> int" where
  "calculateQualityScore s =
     (case s of
        None \<Rightarrow> 85
      | Some summary \<Rightarrow>
          (let baseScore = 100;
               highPenalty = or0 (high_severity_issues summary) * 20;
               mediumPenalty = or0 (medium_severity_issues summary) * 10;
               lowPenalty = or0 (low_severity_issues summary) * 5
           in max 0 (baseScore - highPenalty - mediumPenalty - lowPenalty)))"

text \<open>\<open>calculateSecurityScore(report)\<close>, app.js 2632-2644.\<close>

definition calculateSecurityScore :: "ui_report option \<Rightarrow> int" where
  "calculateSecurityScore r =
     (case r of
        None \<Rightarrow> 100
      | Some rep \<Rightarrow>
          (case issues rep of
             None \<Rightarrow> 100
           | Some is \<Rightarrow>
               (let securityIssues = filter (\<lambda>i. itype i = Some ''security'') is;
                    highSecurityIssues =
                      int (length (filter (\<lambda>i. severity i = Some ''high'') securityIssues));
                    mediumSecurityIssues =
                      int (length (filter (\<lambda>i. severity i = Some ''medium'') securityIssues));
                    lowSecurityIssues =
                      int (length (filter (\<lambda>i. severity i = Some ''low'') securityIssues));
                    baseScore = 100;
                    penalty = highSecurityIssues * 30 + mediumSecurityIssues * 15
                              + lowSecurityIssues * 5
                in max 0 (baseScore - penalty))))"

text \<open>
  The number of issues of a given type and severity in a list.
\<close>

definition count_issues :: "string \<Rightarrow> string \<Rightarrow> issue list \<Rightarrow> int" where
  "count_issues ty sev is =
     int (length (filter (\<lambda>i. itype i = Some ty \<and> severity i = Some sev) is))"

section \<open>The issue list (app.js)\<close>

text \<open>
  \<open>updateIssuesList(issues)\<close>, app.js 755-819. The comparator reads
  \<open>severityOrder[x.severity] || 0\<close> for both issues and returns the difference, the second
  issue's value first. \<open>severityOrder\<close> is the object literal of the comparator: at its own
  keys high, medium and low it holds a number; at a name that every object inherits it
  holds the inherited function or object, which is truthy and not a number; at any other
  name, and for a missing severity, it holds nothing and \<open>|| 0\<close> gives 0. A difference
  with an operand that is not a number is NaN, here \<open>None\<close>.
\<close>

definition inheritedKeys :: "string list" where
  "inheritedKeys =
     [''constructor'', ''__defineGetter__'', ''__defineSetter__'', ''hasOwnProperty'',
      ''__lookupGetter__'', ''__lookupSetter__'', ''isPrototypeOf'', ''propertyIsEnumerable'',
      ''toString'', ''valueOf'', ''__proto__'', ''toLocaleString'']"

datatype looked_up = Rank int | Inherited

definition severityOrder :: "string \<Rightarrow> looked_up option" where
  "severityOrder s =
     (if s = ''high'' then Some (Rank 3)
      else if s = ''medium'' then Some (Rank 2)
      else if s = ''low'' then Some (Rank 1)
      else if s \<in> set inheritedKeys then Some Inherited
      else None)"

definition severityRank :: "issue \<Rightarrow> int option" where
  "severityRank i =
     (case severity i of
        None \<Rightarrow> Some 0
      | Some s \<Rightarrow>
          (case severityOrder s of
             None \<Rightarrow> Some 0
           | Some (Rank n) \<Rightarrow> Some n
           | Some Inherited \<Rightarrow> None))"

definition compareSeverity :: "issue \<Rightarrow> issue \<Rightarrow> int option" where
  "compareSeverity a b =
     (case (severityRank b, severityRank a) of
        (Some x, Some y) \<Rightarrow> Some (x - y)
      | _ \<Rightarrow> None)"

text \<open>
  \<open>Array.prototype.sort\<close> with a comparator takes a result that is NaN for 0 and is
  stable: elements the comparator calls equal keep their order. For a comparator that is
  a consistent order on the elements the result is therefore fixed by the input, and it
  is the one insertion from the right computes: an element goes before the first element
  of the sorted rest that it does not come after. Where the comparator is not a
  consistent order the language leaves the order to the implementation; the properties
  of the list are stated below for issues on which it is one.
\<close>

definition sortCompare :: "('a \<Rightarrow> 'a \<Rightarrow> int option) \<Rightarrow> 'a \<Rightarrow> 'a \<Rightarrow> int" where
  "sortCompare cmp x y = (case cmp x y of None \<Rightarrow> 0 | Some v \<Rightarrow> v)"

fun insertBy :: "('a \<Rightarrow> 'a \<Rightarrow> int option) \<Rightarrow> 'a \<Rightarrow> 'a list \<Rightarrow> 'a list" where
  "insertBy cmp x [] = [x]"
| "insertBy cmp x (y # ys) =
     (if sortCompare cmp x y \<le> 0 then x # y # ys else y # insertBy cmp x ys)"

fun sortBy :: "('a \<Rightarrow> 'a \<Rightarrow> int option) \<Rightarrow> 'a list \<Rightarrow> 'a list" where
  "sortBy cmp [] = []"
| "sortBy cmp (x # xs) = insertBy cmp x (sortBy cmp xs)"

text \<open>
  What the list shows: the one item "No Issues Found", or an item for each issue.
  \<open>issuesContainer\<close> is the content of the element \<open>.issues-container\<close>, \<open>None\<close> when
  the page has no such element; \<open>issues\<close> is \<open>None\<close> for \<open>null\<close> or \<open>undefined\<close>.
\<close>

datatype issue_item = NoIssuesFound | IssueItem issue

definition updateIssuesList :: "issue_item list option \<Rightarrow> issue list option \<Rightarrow> issue_item list option" where
  "updateIssuesList issuesContainer issues' =
     (case issuesContainer of
        None \<Rightarrow> None
      | Some _ \<Rightarrow>
          (case issues' of
             None \<Rightarrow> Some [NoIssuesFound]
           | Some is \<Rightarrow>
               (if length is = 0 then Some [NoIssuesFound]
                else (let sortedIssues = sortBy compareSeverity is
                      in Some (map IssueItem sortedIssues)))))"

text \<open>
  The severity levels of the specification: high above medium above low, and any other
  severity below them. A severity is plain when it is missing or is not a name that
  every object inherits.
\<close>

definition severity_level :: "issue \<Rightarrow> int" where
  "severity_level i =
     (if severity i = Some ''high'' then 3
      else if severity i = Some ''medium'' then 2
      else if severity i = Some ''low'' then 1
      else 0)"

definition plain_severity :: "issue \<Rightarrow> bool" where
  "plain_severity i = (case severity i of None \<Rightarrow> True | Some s \<Rightarrow> s \<notin> set inheritedKeys)"

text \<open>
  The order the specification asks of the list: for every two positions, the earlier issue
  has the higher severity, or the same severity and a line that is not greater. Two issues
  of which one has no line are not compared by line.
\<close>

definition line_le :: "int option \<Rightarrow> int option \<Rightarrow> bool" where
  "line_le a b = (case (a, b) of (Some x, Some y) \<Rightarrow> x \<le> y | _ \<Rightarrow> True)"

definition severity_then_line :: "issue \<Rightarrow> issue \<Rightarrow> bool" where
  "severity_then_line a b =
     (severity_level a > severity_level b
      \<or> (severity_level a = severity_level b \<and> line_le (line a) (line b)))"

fun items_issues :: "issue_item list \<Rightarrow> issue list" where
  "items_issues [] = []"
| "items_issues (NoIssuesFound # xs) = items_issues xs"
| "items_issues (IssueItem i # xs) = i # items_issues xs"

section \<open>The upload boundary (app.js)\<close>

record upload_file =
  file_name :: string
  file_size :: nat

datatype upload_error = UnsupportedType string | TooLarge nat | EmptyFile

definition allowedTypes :: "string list" where
  "allowedTypes = [''.py'', ''.js'', ''.ts'', ''.java'', ''.cpp'', ''.c'', ''.cs'', ''.php'',
                   ''.rb'', ''.go'', ''.rs'', ''.swift'']"

definition maxSize :: nat where
  "maxSize = 10 * 1024 * 1024"

definition file_extension :: "upload_file \<Rightarrow> string" where
  "file_extension file = ''.'' @ toLowerCase (split_dot_pop (file_name file))"

text \<open>\<open>validateUploadFile(file)\<close>, app.js 1287-1306: the three checks, in its order.\<close>

definition validateUploadFile :: "upload_file \<Rightarrow> upload_error + unit" where
  "validateUploadFile file =
     (let extension = file_extension file
      in if extension \<notin> set allowedTypes then Inl (UnsupportedType extension)
         else if file_size file > maxSize then Inl (TooLarge (file_size file))
         else if file_size file = 0 then Inl EmptyFile
         else Inr ())"

text \<open>
  \<open>handleFileUpload(e)\<close>, app.js 1208-1282, as the steps it performs, in order. The file
  is \<open>None\<close> when the event carries none. \<open>readFileContent\<close> and \<open>uploadFile\<close> are
  the collaborators: \<open>read\<close> is the text the reader gives (\<open>None\<close> when it rejects),
  \<open>upload\<close> the report id the server answers with (\<open>None\<close> when the request fails). The
  state of the upload button and the announcements are left out of the steps.
\<close>

datatype upload_step =
    ShowUploadProgress nat bool
  | ReadFileContent
  | DisplayCodeInEditor string
  | UploadFile
  | StoreReportId string
  | ResetAnalysisResults
  | UpdateAnalysisStatus string
  | ResetCodeEditor

definition upload_failed :: "upload_step list" where
  "upload_failed = [ShowUploadProgress 0 True, ResetCodeEditor]"

definition handleFileUpload :: "upload_file option \<Rightarrow> string option \<Rightarrow> string option \<Rightarrow> upload_step list" where
  "handleFileUpload file' read upload =
     (case file' of
        None \<Rightarrow> []
      | Some file \<Rightarrow>
          ShowUploadProgress 0 False #
          (case validateUploadFile file of
             Inl err \<Rightarrow> upload_failed
           | Inr _ \<Rightarrow>
               ReadFileContent #
               (case read of
                  None \<Rightarrow> upload_failed
                | Some fileContent \<Rightarrow>
                    [DisplayCodeInEditor fileContent, ShowUploadProgress 30 False, UploadFile] @
                    (case upload of
                       None \<Rightarrow> upload_failed
                     | Some rid \<Rightarrow>
                         [ShowUploadProgress 100 False, StoreReportId rid,
                          ResetAnalysisResults, UpdateAnalysisStatus ''ready'']))))"

text \<open>The steps that work on the file's content.\<close>

fun works_on_content :: "upload_step \<Rightarrow> bool" where
  "works_on_content ReadFileContent = True"
| "works_on_content (DisplayCodeInEditor _) = True"
| "works_on_content UploadFile = True"
| "works_on_content (StoreReportId _) = True"
| "works_on_content _ = False"

section \<open>Reading values\<close>

text \<open>
  The exceptions the language raises: reading a property of \<open>null\<close>, calling what is not
  a function and assigning a property to a primitive value (class bodies are strict code)
  raise a TypeError; \<open>JSON.parse\<close> and \<open>response.json()\<close> raise a SyntaxError.
\<close>

datatype js_error = TypeError | SyntaxError

text \<open>
  \<open>v.k\<close>: the property \<open>k\<close> of a value, \<open>None\<close> for \<open>undefined\<close>. The clients
  read the names summary, issues, recommendations, positive_aspects, severity, error,
  message, candidates, content, parts and text, none of which a prototype defines, so a
  primitive value, and an array without such a property of its own, has none of them.
\<close>

fun get_prop :: "json \<Rightarrow> string \<Rightarrow> js_error + json option" where
  "get_prop JNull k = Inl TypeError"
| "get_prop (JObj kvs) k = Inr (map_of kvs k)"
| "get_prop (JArr xs ps) k = Inr (map_of ps k)"
| "get_prop _ k = Inr None"

text \<open>\<open>v?.k\<close> and \<open>v?.[0]\<close> on a value that may be \<open>undefined\<close>.\<close>

fun opt_prop :: "json option \<Rightarrow> string \<Rightarrow> json option" where
  "opt_prop None k = None"
| "opt_prop (Some v) k = (case get_prop v k of Inl _ \<Rightarrow> None | Inr r \<Rightarrow> r)"

fun opt_first :: "json option \<Rightarrow> json option" where
  "opt_first (Some (JArr (x # xs) ps)) = Some x"
| "opt_first (Some (JStr (c # cs))) = Some (JStr [c])"
| "opt_first (Some (JObj kvs)) = map_of kvs ''0''"
| "opt_first _ = None"

fun truthy :: "json \<Rightarrow> bool" where
  "truthy JNull = False"
| "truthy (JBool b) = b"
| "truthy (JNum n) = (n \<noteq> 0)"
| "truthy (JStr s) = (s \<noteq> [])"
| "truthy (JArr xs ps) = True"
| "truthy (JObj kvs) = True"

text \<open>\<open>v || d\<close>.\<close>

definition or_else :: "json option \<Rightarrow> json \<Rightarrow> json" where
  "or_else v d = (case v of None \<Rightarrow> d | Some x \<Rightarrow> if truthy x then x else d)"

text \<open>
  \<open>o.k = v\<close>: an object takes the property, in the place of an earlier value of it or
  after its other properties; a primitive value raises.
\<close>

fun assign :: "string \<Rightarrow> json \<Rightarrow> (string \<times> json) list \<Rightarrow> (string \<times> json) list" where
  "assign k v [] = [(k, v)]"
| "assign k v ((k', v') # kvs) = (if k' = k then (k, v) # kvs else (k', v') # assign k v kvs)"

fun set_prop :: "json \<Rightarrow> string \<Rightarrow> json \<Rightarrow> js_error + json" where
  "set_prop (JObj kvs) k v = Inr (JObj (assign k v kvs))"
| "set_prop (JArr xs ps) k v = Inr (JArr xs (assign k v ps))"
| "set_prop _ k v = Inl TypeError"

section \<open>Retries (api-client.js)\<close>

text \<open>
  An error a request fails with: its \<open>name\<close>, its \<open>status\<close> (the HTTP status when the
  error was made from a response that is not ok, \<open>None\<close> for an exception of \<open>fetch\<close>)
  and \<open>retryAfter\<close>, the seconds of the response's Retry-After header.
\<close>

record api_error =
  error_name :: string
  error_status :: "nat option"
  retryAfter :: "nat option"

datatype error_type = Network | Auth | RateLimit | Validation | Server | Unknown

text \<open>
  \<open>categorizeError(error)\<close>, api-client.js 227-249. \<open>onLine\<close> is the value of
  \<open>navigator.onLine\<close> when the error is categorized.
\<close>

definition categorizeError :: "bool \<Rightarrow> api_error \<Rightarrow> error_type" where
  "categorizeError onLine error =
     (if \<not> onLine \<or> error_name error = ''NetworkError'' then Network
      else (case error_status error of
              None \<Rightarrow> Unknown
            | Some s \<Rightarrow>
                if s = 401 \<or> s = 403 then Auth
                else if s = 429 then RateLimit
                else if s \<ge> 400 \<and> s < 500 then Validation
                else if s \<ge> 500 then Server
                else Unknown))"

text \<open>
  What a handler of \<open>errorHandlers\<close> returns, and the five handlers the constructor
  registers (\<open>initializeDefaultErrorHandlers\<close>, api-client.js 109-147); no handler is
  registered for the type unknown. The messages the handlers show are left out.
\<close>

record handler_result =
  retry :: bool
  delay :: "nat option"

type_synonym error_handlers = "error_type \<Rightarrow> (api_error \<Rightarrow> handler_result) option"

definition defaultErrorHandlers :: error_handlers where
  "defaultErrorHandlers t =
     (case t of
        Network \<Rightarrow> Some (\<lambda>error. \<lparr>retry = True, delay = Some 2000\<rparr>)
      | Auth \<Rightarrow> Some (\<lambda>error. \<lparr>retry = False, delay = None\<rparr>)
      | Server \<Rightarrow> Some (\<lambda>error. \<lparr>retry = True, delay = Some 5000\<rparr>)
      | Validation \<Rightarrow> Some (\<lambda>error. \<lparr>retry = False, delay = None\<rparr>)
      | RateLimit \<Rightarrow>
          Some (\<lambda>error. (let retryAfter' = (case retryAfter error of None \<Rightarrow> 60 | Some n \<Rightarrow> n)
                         in \<lparr>retry = True, delay = Some (retryAfter' * 1000)\<rparr>))
      | Unknown \<Rightarrow> None)"

text \<open>
  The decision of \<open>handleError\<close>, api-client.js 202-213: the local variables
  \<open>shouldRetry\<close> and \<open>retryDelay\<close>.
\<close>

record retry_decision =
  shouldRetry :: bool
  retryDelay :: nat

definition retryDecision :: "error_handlers \<Rightarrow> bool \<Rightarrow> api_error \<Rightarrow> nat \<Rightarrow> nat \<Rightarrow> retry_decision" where
  "retryDecision errorHandlers onLine error attempt maxRetries =
     (let errorType = categorizeError onLine error
      in (case errorHandlers errorType of
            None \<Rightarrow> \<lparr>shouldRetry = False, retryDelay = 1000\<rparr>
          | Some handler \<Rightarrow>
              (let result = handler error
               in \<lparr>shouldRetry = (retry result \<and> attempt < maxRetries),
                   retryDelay = (case delay result of
                                   None \<Rightarrow> 1000
                                 | Some d \<Rightarrow> if d = 0 then 1000 else d)\<rparr>)))"

lemma shouldRetry_attempt:
  "shouldRetry (retryDecision H onl e attempt maxRetries) \<Longrightarrow> attempt < maxRetries"
  by (simp add: retryDecision_def Let_def split: option.splits)

text \<open>
  One attempt of \<open>makeRequest\<close> either gets a response or fails with an exception of
  \<open>fetch\<close>. The world a request runs in gives, for each attempt number, what the attempt
  meets and the value of \<open>navigator.onLine\<close> at that time. \<open>response_error_data\<close> is
  what \<open>parseErrorResponse\<close> gives for the response: the value of its JSON body, or an
  object with a message. The error of a response that is not ok is made from
  \<open>errorData.message\<close>, the status and the Retry-After header; reading the message of
  an error body that is \<open>null\<close> raises a TypeError instead, which has no status.
\<close>

record http_response =
  response_ok :: bool
  response_status :: nat
  response_retry_after :: "nat option"
  response_error_data :: json

datatype fetch_outcome = Threw api_error | Returned http_response

type_synonym world = "nat \<Rightarrow> fetch_outcome \<times> bool"

definition error_of_response :: "http_response \<Rightarrow> api_error" where
  "error_of_response r =
     \<lparr>error_name = ''Error'', error_status = Some (response_status r),
      retryAfter = response_retry_after r\<rparr>"

definition typeError :: api_error where
  "typeError = \<lparr>error_name = ''TypeError'', error_status = None, retryAfter = None\<rparr>"

text \<open>
  The run of a request: what the caller gets (the response, or the error thrown), the
  number of attempts made and the delays waited between them.
\<close>

record request_run =
  run_result :: "api_error + http_response"
  attempts :: nat
  delays :: "nat list"

text \<open>
  \<open>makeRequest(url, options, attempt, maxRetries)\<close>, api-client.js 254-282, and
  \<open>handleError(error, url, options, attempt, maxRetries)\<close>, api-client.js 202-222, which
  call each other.
\<close>

function makeRequest :: "error_handlers \<Rightarrow> world \<Rightarrow> nat \<Rightarrow> nat \<Rightarrow> request_run"
  and handleError :: "error_handlers \<Rightarrow> world \<Rightarrow> api_error \<Rightarrow> nat \<Rightarrow> nat \<Rightarrow> request_run"
where
  "makeRequest errorHandlers w attempt maxRetries =
     (case fst (w attempt) of
        Returned processedResponse \<Rightarrow>
          if \<not> response_ok processedResponse
          then (case get_prop (response_error_data processedResponse) ''message'' of
                  Inl raised \<Rightarrow> handleError errorHandlers w typeError attempt maxRetries
                | Inr message' \<Rightarrow>
                    handleError errorHandlers w (error_of_response processedResponse) attempt
                      maxRetries)
          else \<lparr>run_result = Inr processedResponse, attempts = 1, delays = []\<rparr>
      | Threw error \<Rightarrow> handleError errorHandlers w error attempt maxRetries)"
| "handleError errorHandlers w error attempt maxRetries =
     (if shouldRetry (retryDecision errorHandlers (snd (w attempt)) error attempt maxRetries)
      then (let r = makeRequest errorHandlers w (attempt + 1) maxRetries
            in r\<lparr>attempts := Suc (attempts r),
                 delays := retryDelay (retryDecision errorHandlers (snd (w attempt)) error
                                         attempt maxRetries) # delays r\<rparr>)
      else \<lparr>run_result = Inl error, attempts = 1, delays = []\<rparr>)"
  by pat_completeness auto

termination
  by (relation "measure (\<lambda>x. case x of
                    Inl (H, w, attempt, maxRetries) \<Rightarrow> 2 * (maxRetries - attempt) + 1
                  | Inr (H, w, e, attempt, maxRetries) \<Rightarrow> 2 * (maxRetries - attempt))")
     (auto dest: shouldRetry_attempt)

text \<open>The default values of the parameters \<open>attempt\<close> and \<open>maxRetries\<close>.\<close>

definition request :: "world \<Rightarrow> request_run" where
  "request w = makeRequest defaultErrorHandlers w 1 3"

section \<open>The Gemini client (part_002)\<close>

text \<open>
  What the clock and the random number generator give a run. A report is built from the
  \<open>k\<close>-th reading of each: \<open>Date.now()\<close>, the nine characters
  \<open>Math.random().toString(36).substr(2, 9)\<close> and \<open>new Date().toISOString()\<close>.
\<close>

record env =
  date_now :: "nat \<Rightarrow> nat"
  random36 :: "nat \<Rightarrow> string"
  iso_string :: "nat \<Rightarrow> string"

fun decimal :: "nat \<Rightarrow> string" where
  "decimal n =
     (if n < 10 then [char_of (48 + n)] else decimal (n div 10) @ [char_of (48 + n mod 10)])"

text \<open>\<open>generateReportId()\<close>, part_002 267-269.\<close>

definition generateReportId :: "env \<Rightarrow> nat \<Rightarrow> string" where
  "generateReportId e k = ''report_'' @ decimal (date_now e k) @ ''_'' @ random36 e k"

text \<open>
  The match of \<open>/```json\s*([\s\S]*?)\s*```/\<close>. The expression matches at the first
  \<open>```json\<close> when a \<open>```\<close> follows it somewhere, and nowhere otherwise (a later
  \<open>```json\<close> would itself be such a \<open>```\<close>). The first \<open>\s*\<close> is greedy and takes the
  white space after the opening; the group is lazy, so it ends where white space up to the
  first \<open>```\<close> begins. \<open>after_first p s\<close> is the text of \<open>s\<close> after the first
  \<open>p\<close>, \<open>before_first p s\<close> the text before it.
\<close>

fun after_first :: "string \<Rightarrow> string \<Rightarrow> string option" where
  "after_first p [] = (if p = [] then Some [] else None)"
| "after_first p (c # cs) =
     (if take (length p) (c # cs) = p then Some (drop (length p) (c # cs))
      else after_first p cs)"

fun before_first :: "string \<Rightarrow> string \<Rightarrow> string option" where
  "before_first p [] = (if p = [] then Some [] else None)"
| "before_first p (c # cs) =
     (if take (length p) (c # cs) = p then Some []
      else map_option ((#) c) (before_first p cs))"

definition match_json_fence :: "string \<Rightarrow> string option" where
  "match_json_fence text =
     (case after_first ''```json'' text of
        None \<Rightarrow> None
      | Some rest \<Rightarrow>
          (case before_first ''```'' (dropWhile is_space rest) of
             None \<Rightarrow> None
           | Some body \<Rightarrow> Some (rev (dropWhile is_space (rev body)))))"

text \<open>
  \<open>validateIssueCounts(report)\<close>, part_002 218-238. \<open>issues.forEach\<close> needs an array;
  each issue's \<open>severity?.toLowerCase()\<close> needs an issue that is not \<open>null\<close> and a
  severity that is a string, \<open>null\<close> or missing. Only the own keys high, medium and low
  of \<open>severityCounts\<close> are counted.
\<close>

record severity_counts =
  high :: nat
  medium :: nat
  low :: nat

definition issue_severity :: "json \<Rightarrow> js_error + string option" where
  "issue_severity issue =
     (case get_prop issue ''severity'' of
        Inl e \<Rightarrow> Inl e
      | Inr None \<Rightarrow> Inr None
      | Inr (Some JNull) \<Rightarrow> Inr None
      | Inr (Some (JStr s)) \<Rightarrow> Inr (Some (toLowerCase s))
      | Inr (Some _) \<Rightarrow> Inl TypeError)"

definition count_severity :: "string option \<Rightarrow> severity_counts \<Rightarrow> severity_counts" where
  "count_severity sev c =
     (if sev = Some ''high'' then c\<lparr>high := Suc (high c)\<rparr>
      else if sev = Some ''medium'' then c\<lparr>medium := Suc (medium c)\<rparr>
      else if sev = Some ''low'' then c\<lparr>low := Suc (low c)\<rparr>
      else c)"

fun forEach_issue :: "json list \<Rightarrow> severity_counts \<Rightarrow> js_error + severity_counts" where
  "forEach_issue [] c = Inr c"
| "forEach_issue (issue # rest) c =
     (case issue_severity issue of
        Inl e \<Rightarrow> Inl e
      | Inr sev \<Rightarrow> forEach_issue rest (count_severity sev c))"

definition jnat :: "nat \<Rightarrow> json" where
  "jnat n = JNum (of_nat n)"

definition set_counts :: "json \<Rightarrow> nat \<Rightarrow> severity_counts \<Rightarrow> js_error + json" where
  "set_counts s n c =
     (case set_prop s ''total_issues'' (jnat n) of
        Inl e \<Rightarrow> Inl e
      | Inr s1 \<Rightarrow>
     (case set_prop s1 ''high_severity_issues'' (jnat (high c)) of
        Inl e \<Rightarrow> Inl e
      | Inr s2 \<Rightarrow>
     (case set_prop s2 ''medium_severity_issues'' (jnat (medium c)) of
        Inl e \<Rightarrow> Inl e
      | Inr s3 \<Rightarrow> set_prop s3 ''low_severity_issues'' (jnat (low c)))))"

definition validateIssueCounts :: "(json, json) report \<Rightarrow> js_error + (json, json) report" where
  "validateIssueCounts report =
     (let issues' = or_else (Some (issues report)) (JArr [] [])
      in (case issues' of
            JArr xs ps \<Rightarrow>
              (case forEach_issue xs \<lparr>high = 0, medium = 0, low = 0\<rparr> of
                 Inl e \<Rightarrow> Inl e
               | Inr severityCounts \<Rightarrow>
                   (case set_counts (report_summary report) (length xs) severityCounts of
                      Inl e \<Rightarrow> Inl e
                    | Inr s \<Rightarrow> Inr (report\<lparr>report_summary := s\<rparr>)))
          | _ \<Rightarrow> Inl TypeError))"

text \<open>
  \<open>parseAnalysisResponse(analysisText, filename)\<close>, part_002 147-213. The body of the
  \<open>try\<close> is in two parts. \<open>extract_analysis\<close> is the part before the report is
  built: \<open>analysisText.match\<close> (a TypeError when the value is not a string), the choice
  of the group or the whole text, \<open>trim\<close> and \<open>JSON.parse\<close>, which is the parameter
  \<open>JSON_parse\<close> (\<open>None\<close> where it raises). \<open>build_report\<close> is the rest: the object
  literal, which takes the first reading of the clock for its id and timestamp, and
  \<open>validateIssueCounts\<close>. The \<open>catch\<close> returns the fallback report, built from the
  next reading of the clock that is not used yet.
\<close>

definition defaultSummary :: json where
  "defaultSummary =
     JObj [(''total_issues'', JNum 0), (''high_severity_issues'', JNum 0),
           (''medium_severity_issues'', JNum 0), (''low_severity_issues'', JNum 0),
           (''overall_quality_score'', JNum 85), (''security_score'', JNum 90),
           (''performance_score'', JNum 80)]"

definition fallbackSummary :: json where
  "fallbackSummary =
     JObj [(''total_issues'', JNum 0), (''high_severity_issues'', JNum 0),
           (''medium_severity_issues'', JNum 0), (''low_severity_issues'', JNum 0),
           (''overall_quality_score'', JNum 75), (''security_score'', JNum 80),
           (''performance_score'', JNum 75)]"

definition fallbackIssue :: json where
  "fallbackIssue =
     JObj [(''type'', JStr ''quality''), (''severity'', JStr ''low''), (''line'', JNum 1),
           (''message'', JStr ''Analysis completed but response format was unexpected''),
           (''suggestion'',
            JStr ''The code was analyzed but the detailed results could not be parsed properly.''),
           (''confidence'', JNum (1 / 2))]"

definition fallbackReport :: "env \<Rightarrow> nat \<Rightarrow> string \<Rightarrow> (json, json) report" where
  "fallbackReport e k filename' =
     \<lparr>report_id = generateReportId e k,
      filename = filename',
      status = ''completed'',
      timestamp = iso_string e k,
      report_summary = fallbackSummary,
      issues = JArr [fallbackIssue] [],
      recommendations =
        JArr [JStr ''Consider running the analysis again for detailed results''] [],
      positive_aspects = JArr [JStr ''Code was successfully processed''] []\<rparr>"

definition extract_analysis :: "(string \<Rightarrow> json option) \<Rightarrow> json \<Rightarrow> js_error + json" where
  "extract_analysis JSON_parse analysisText =
     (case analysisText of
        JStr text \<Rightarrow>
          (let jsonMatch = match_json_fence text;
               jsonText = (case jsonMatch of Some group1 \<Rightarrow> group1 | None \<Rightarrow> text);
               jsonText = trim jsonText
           in (case JSON_parse jsonText of
                 None \<Rightarrow> Inl SyntaxError
               | Some analysis \<Rightarrow> Inr analysis))
      | _ \<Rightarrow> Inl TypeError)"

definition build_report :: "env \<Rightarrow> json \<Rightarrow> string \<Rightarrow> js_error + (json, json) report" where
  "build_report e analysis filename' =
     (case get_prop analysis ''summary'' of
        Inl err \<Rightarrow> Inl err
      | Inr summary' \<Rightarrow>
          validateIssueCounts
            \<lparr>report_id = generateReportId e 0,
             filename = filename',
             status = ''completed'',
             timestamp = iso_string e 0,
             report_summary = or_else summary' defaultSummary,
             issues = or_else (opt_prop (Some analysis) ''issues'') (JArr [] []),
             recommendations = or_else (opt_prop (Some analysis) ''recommendations'') (JArr [] []),
             positive_aspects =
               or_else (opt_prop (Some analysis) ''positive_aspects'') (JArr [] [])\<rparr>)"

definition parseAnalysisResponse ::
  "(string \<Rightarrow> json option) \<Rightarrow> env \<Rightarrow> json \<Rightarrow> string \<Rightarrow> (json, json) report" where
  "parseAnalysisResponse JSON_parse e analysisText filename' =
     (case extract_analysis JSON_parse analysisText of
        Inl err \<Rightarrow> fallbackReport e 0 filename'
      | Inr analysis \<Rightarrow>
          (case build_report e analysis filename' of
             Inl err \<Rightarrow> fallbackReport e 1 filename'
           | Inr report \<Rightarrow> report))"

text \<open>
  \<open>analyzeCode(code, filename)\<close>, part_002 40-89. The request carries the prompt built
  from the code, the language and the file name; \<open>fetched\<close> is what the one call of
  \<open>fetch\<close> comes to: it rejects, or it resolves to a response whose \<open>body\<close> is the
  value \<open>response.json()\<close> gives (\<open>None\<close> when the body is not JSON). The \<open>catch\<close>
  logs the error and throws it again, so an error of the \<open>try\<close> is the result. The
  message of a Gemini API error is the message of the error body when it is truthy and
  the status text otherwise.
\<close>

record fetch_response =
  ok :: bool
  statusText :: string
  body :: "json option"

datatype fetch_result = Rejected string | Resolved fetch_response

datatype gemini_error =
    ApiKeyRequired
  | FetchFailed string
  | GeminiApiError "json + string"
  | NoAnalysisReceived
  | Raised js_error

definition analyzeCode ::
  "(string \<Rightarrow> json option) \<Rightarrow> env \<Rightarrow> string option \<Rightarrow> fetch_result \<Rightarrow> string
     \<Rightarrow> gemini_error + (json, json) report" where
  "analyzeCode JSON_parse e apiKey fetched filename' =
     (if apiKey = None \<or> apiKey = Some [] then Inl ApiKeyRequired
      else (case fetched of
              Rejected reason \<Rightarrow> Inl (FetchFailed reason)
            | Resolved response \<Rightarrow>
                (if \<not> ok response then
                   (case body response of
                      None \<Rightarrow> Inl (Raised SyntaxError)
                    | Some errorData \<Rightarrow>
                        (case get_prop errorData ''error'' of
                           Inl err \<Rightarrow> Inl (Raised err)
                         | Inr error' \<Rightarrow>
                             (case opt_prop error' ''message'' of
                                None \<Rightarrow> Inl (GeminiApiError (Inr (statusText response)))
                              | Some m \<Rightarrow>
                                  if truthy m then Inl (GeminiApiError (Inl m))
                                  else Inl (GeminiApiError (Inr (statusText response))))))
                 else
                   (case body response of
                      None \<Rightarrow> Inl (Raised SyntaxError)
                    | Some data \<Rightarrow>
                        (case get_prop data ''candidates'' of
                           Inl err \<Rightarrow> Inl (Raised err)
                         | Inr candidates \<Rightarrow>
                             (case opt_prop (opt_first (opt_prop (opt_prop
                                     (opt_first candidates) ''content'') ''parts'')) ''text'' of
                                None \<Rightarrow> Inl NoAnalysisReceived
                              | Some analysisText \<Rightarrow>
                                  if \<not> truthy analysisText then Inl NoAnalysisReceived
                                  else Inr (parseAnalysisResponse JSON_parse e analysisText
                                              filename')))))))"

text \<open>
  The analysis text of a response body, \<open>data.candidates?.[0]?.content?.parts?.[0]?.text\<close>,
  and the message of an error body, \<open>errorData.error?.message\<close>, for a body that is not
  \<open>null\<close>; and a reply that lacks a property: it has none of that name, or one that is
  falsy.
\<close>

definition analysis_text :: "json \<Rightarrow> json option" where
  "analysis_text data =
     opt_prop (opt_first (opt_prop (opt_prop (opt_first (opt_prop (Some data) ''candidates''))
       ''content'') ''parts'')) ''text''"

definition error_message :: "json \<Rightarrow> json option" where
  "error_message errorData = opt_prop (opt_prop (Some errorData) ''error'') ''message''"


text \<open>
  A report as the specification asks for when the analysis fails: status failed, no
  issues, and a summary that is not empty.
\<close>

definition failed_report :: "(json, json) report \<Rightarrow> bool" where
  "failed_report r =
     (status r = ''failed'' \<and> issues r = JArr [] [] \<and> report_summary r \<noteq> JObj []
      \<and> truthy (report_summary r))"

text \<open>
  How the dashboard functions read a report of the client: a count is the integer a
  number property holds, a type, a severity and a text are the string a string property
  holds, and each is missing otherwise.
\<close>

definition as_int :: "json option \<Rightarrow> int option" where
  "as_int v = (case v of Some (JNum q) \<Rightarrow> (if q = of_int \<lfloor>q\<rfloor> then Some \<lfloor>q\<rfloor> else None)
               | _ \<Rightarrow> None)"

definition as_string :: "json option \<Rightarrow> string option" where
  "as_string v = (case v of Some (JStr s) \<Rightarrow> Some s | _ \<Rightarrow> None)"

definition summary_view :: "json \<Rightarrow> summary" where
  "summary_view s =
     \<lparr>total_issues = as_int (opt_prop (Some s) ''total_issues''),
      high_severity_issues = as_int (opt_prop (Some s) ''high_severity_issues''),
      medium_severity_issues = as_int (opt_prop (Some s) ''medium_severity_issues''),
      low_severity_issues = as_int (opt_prop (Some s) ''low_severity_issues''),
      overall_quality_score = as_int (opt_prop (Some s) ''overall_quality_score''),
      security_score = as_int (opt_prop (Some s) ''security_score''),
      performance_score = as_int (opt_prop (Some s) ''performance_score'')\<rparr>"

definition issue_view :: "json \<Rightarrow> issue" where
  "issue_view v =
     \<lparr>itype = as_string (opt_prop (Some v) ''type''),
      severity = as_string (opt_prop (Some v) ''severity''),
      line = as_int (opt_prop (Some v) ''line''),
      message = (case as_string (opt_prop (Some v) ''message'') of None \<Rightarrow> [] | Some m \<Rightarrow> m),
      suggestion =
        (case as_string (opt_prop (Some v) ''suggestion'') of None \<Rightarrow> [] | Some m \<Rightarrow> m)\<rparr>"

definition issues_view :: "json \<Rightarrow> issue list option" where
  "issues_view v = (case v of JArr xs ps \<Rightarrow> Some (map issue_view xs) | _ \<Rightarrow> None)"

definition dashboard_view :: "(json, json) report \<Rightarrow> ui_report" where
  "dashboard_view r =
     \<lparr>report_id = report_id r, filename = filename r, status = status r,
      timestamp = timestamp r,
      report_summary = (if truthy (report_summary r) then Some (summary_view (report_summary r))
                        else None),
      issues = issues_view (issues r),
      recommendations = recommendations r,
      positive_aspects = positive_aspects r\<rparr>"

section \<open>The chunker\<close>

text \<open>
  Modelled from the spec: the chunker (\<open>Chunker.chunk\<close>, section 4.2; declared as
  \<open>chunkCode(content, language): CodeChunk[]\<close> in the design document) is not among the
  source files. A chunk is the CodeChunk of section 3: its place in the sequence, its
  text, the first and the last of its lines in the file (from 1, both included), and the
  language.
\<close>

record 'l code_chunk =
  sequenceIndex :: nat
  content :: string
  startLine :: nat
  endLine :: nat
  language :: 'l

text \<open>
  Modelled from the spec: the chunker splits at line boundaries. A line is taken with the
  line feed that ends it, so that the lines of a text, put together, are the text again;
  a last line may lack the line feed. \<open>totalLines\<close> is the number of lines.
\<close>

definition LF :: char where
  "LF = CHR 0x0A"

fun split_lines :: "string \<Rightarrow> string list" where
  "split_lines [] = []"
| "split_lines (c # cs) =
     (if c = LF then [c] # split_lines cs
      else (case split_lines cs of [] \<Rightarrow> [[c]] | l # ls \<Rightarrow> (c # l) # ls))"

definition totalLines :: "string \<Rightarrow> nat" where
  "totalLines s = length (split_lines s)"

text \<open>
  Modelled from the spec: the scan for the lines that start a top-level unit (a function
  or a class). The specification leaves the heuristic open (section 9), so the detector
  is a parameter: from the lines seen so far and a line, whether the line starts a unit.
  \<open>mark\<close> runs it over the lines; \<open>units_of\<close> closes a unit before each line that
  starts one, so the lines before the first such line are a unit of their own.
\<close>

type_synonym boundary_detector = "string list \<Rightarrow> string \<Rightarrow> bool"

fun mark :: "boundary_detector \<Rightarrow> string list \<Rightarrow> string list \<Rightarrow> (string \<times> bool) list" where
  "mark d seen [] = []"
| "mark d seen (l # ls) = (l, d seen l) # mark d (seen @ [l]) ls"

fun units_of :: "(string \<times> bool) list \<Rightarrow> string list list" where
  "units_of [] = []"
| "units_of [(l, b)] = [[l]]"
| "units_of ((l, b) # (l', b') # rest) =
     (if b' then [l] # units_of ((l', b') # rest)
      else (case units_of ((l', b') # rest) of
              [] \<Rightarrow> [[l]]
            | u # us \<Rightarrow> (l # u) # us))"

text \<open>
  Modelled from the spec: the size of some lines is the number of their characters. A
  unit that is larger than \<open>maxChunkSize\<close> on its own falls back to splitting at line
  boundaries: each of its lines becomes a piece. \<open>pack\<close> accumulates pieces into a
  chunk until adding the next one would exceed \<open>maxChunkSize\<close>, then closes the chunk
  and starts a new one with that piece.
\<close>

definition size_of :: "string list \<Rightarrow> nat" where
  "size_of ls = length (concat ls)"

definition pieces :: "nat \<Rightarrow> string list list \<Rightarrow> string list list" where
  "pieces m us = concat (map (\<lambda>u. if size_of u \<le> m then [u] else map (\<lambda>l. [l]) u) us)"

fun pack :: "nat \<Rightarrow> string list \<Rightarrow> string list list \<Rightarrow> string list list" where
  "pack m cur [] = (if cur = [] then [] else [cur])"
| "pack m cur (p # ps) =
     (if cur = [] then pack m p ps
      else if size_of cur + size_of p \<le> m then pack m (cur @ p) ps
      else cur # pack m p ps)"

text \<open>
  Modelled from the spec: the chunks of some groups of lines, numbered in sequence from
  \<open>i\<close>, the first line of the first group being line \<open>n\<close> of the file.
\<close>

fun number_chunks :: "'l \<Rightarrow> nat \<Rightarrow> nat \<Rightarrow> string list list \<Rightarrow> 'l code_chunk list" where
  "number_chunks lang i n [] = []"
| "number_chunks lang i n (g # gs) =
     \<lparr>sequenceIndex = i, content = concat g, startLine = n, endLine = n + length g - 1,
      language = lang\<rparr> # number_chunks lang (Suc i) (n + length g) gs"

text \<open>
  Modelled from the spec: \<open>chunk(sanitizedContent, language, maxChunkSize)\<close>, section
  4.2. Empty content yields no chunk; content that fits is one chunk; otherwise the
  content is split at the boundaries of its units, and at line boundaries where a unit
  does not fit. \<open>chunk_groups\<close> is the lines of each chunk, \<open>chunk\<close> the chunks.
\<close>

definition chunk_groups :: "boundary_detector \<Rightarrow> string \<Rightarrow> nat \<Rightarrow> string list list" where
  "chunk_groups d sanitizedContent maxChunkSize =
     (if sanitizedContent = [] then []
      else if length sanitizedContent \<le> maxChunkSize then [split_lines sanitizedContent]
      else pack maxChunkSize []
             (pieces maxChunkSize (units_of (mark d [] (split_lines sanitizedContent)))))"

definition chunk :: "('l \<Rightarrow> boundary_detector) \<Rightarrow> string \<Rightarrow> 'l \<Rightarrow> nat \<Rightarrow> 'l code_chunk list" where
  "chunk detect sanitizedContent lang maxChunkSize =
     number_chunks lang 0 1 (chunk_groups (detect lang) sanitizedContent maxChunkSize)"

text \<open>
  The line ranges of the chunks partition the lines from \<open>n\<close> to the last line: each
  chunk starts where the one before it ended, none is empty, and the last chunk ends at
  the last line.
\<close>

fun ranges_partition :: "nat \<Rightarrow> 'l code_chunk list \<Rightarrow> nat \<Rightarrow> bool" where
  "ranges_partition n [] lines = (n = lines + 1)"
| "ranges_partition n (c # cs) lines =
     (startLine c = n \<and> startLine c \<le> endLine c \<and> ranges_partition (endLine c + 1) cs lines)"

text \<open>The text of the lines \<open>a\<close> to \<open>b\<close> of a text.\<close>

definition lines_of_range :: "string \<Rightarrow> nat \<Rightarrow> nat \<Rightarrow> string" where
  "lines_of_range s a b = concat (take (b + 1 - a) (drop (a - 1) (split_lines s)))"

section \<open>Derived notions and example values\<close>

text \<open>
  A report of the dashboard that holds the given issues, an issue of a given type,
  severity and line, and a summary with the given counts of high, medium and low issues.
\<close>

definition report_of_issues :: "issue list \<Rightarrow> ui_report" where
  "report_of_issues is =
     \<lparr>report_id = [], filename = [], status = ''completed'', timestamp = [],
      report_summary = None, issues = Some is, recommendations = JArr [] [],
      positive_aspects = JArr [] []\<rparr>"

definition issue_at :: "string \<Rightarrow> string \<Rightarrow> int \<Rightarrow> issue" where
  "issue_at ty sev n =
     \<lparr>itype = Some ty, severity = Some sev, line = Some n, message = [], suggestion = []\<rparr>"

definition summary_of_counts :: "int option \<Rightarrow> int option \<Rightarrow> int option \<Rightarrow> summary" where
  "summary_of_counts h m l =
     \<lparr>total_issues = None, high_severity_issues = h, medium_severity_issues = m,
      low_severity_issues = l, overall_quality_score = None, security_score = None,
      performance_score = None\<rparr>"

text \<open>The counts of a summary, read as the score reads them, are not negative.\<close>

definition nonneg_counts :: "summary \<Rightarrow> bool" where
  "nonneg_counts s =
     (0 \<le> or0 (high_severity_issues s) \<and> 0 \<le> or0 (medium_severity_issues s)
      \<and> 0 \<le> or0 (low_severity_issues s))"

text \<open>The issues the list shows, in the order of its items.\<close>

definition displayed_issues :: "issue_item list option \<Rightarrow> issue list option \<Rightarrow> issue list" where
  "displayed_issues c is =
     (case updateIssuesList c is of None \<Rightarrow> [] | Some items \<Rightarrow> items_issues items)"

text \<open>
  A world in which every attempt is answered with the same status, not ok and with an
  empty object for its error body, and \<open>navigator.onLine\<close> has the same value each
  time.
\<close>

definition always :: "nat \<Rightarrow> bool \<Rightarrow> world" where
  "always s onLine = (\<lambda>attempt. (Returned \<lparr>response_ok = False, response_status = s,
                                    response_retry_after = None,
                                    response_error_data = JObj []\<rparr>, onLine))"

text \<open>
  A world in which every attempt meets an exception of \<open>fetch\<close> while the browser
  reports that it is offline.
\<close>

definition offline_failure :: world where
  "offline_failure = (\<lambda>attempt. (Threw \<lparr>error_name = ''TypeError'', error_status = None,
                                         retryAfter = None\<rparr>, False))"

text \<open>
  A clock for the examples, and \<open>JSON.parse\<close> on the texts the examples use: the
  three objects and \<open>null\<close>, which are JSON, and the other texts of the examples,
  none of which is JSON.
\<close>

definition sample_env :: env where
  "sample_env = \<lparr>date_now = (\<lambda>k. 7 + k), random36 = (\<lambda>k. ''k3x9q1z0a''),
                 iso_string = (\<lambda>k. ''2025-01-01T00:00:00.000Z'')\<rparr>"

definition parse_examples :: "string \<Rightarrow> json option" where
  "parse_examples t =
     (if t = ''{}'' then Some (JObj [])
      else if t = ''{\"issues\": [], \"recommendations\": []}''
      then Some (JObj [(''issues'', JArr [] []), (''recommendations'', JArr [] [])])
      else if t = ''null'' then Some JNull
      else if t = ''{\"issues\": [{\"severity\": \"high\"}, {\"severity\": \"low\"}]}''
      then Some (JObj [(''issues'', JArr [JObj [(''severity'', JStr ''high'')],
                                          JObj [(''severity'', JStr ''low'')]] [])])
      else None)"

text \<open>
  The replies of the provider in the examples: a response that is ok and carries a text
  at \<open>candidates[0].content.parts[0].text\<close>, and a response that is not ok.
\<close>

definition reply_with_text :: "string \<Rightarrow> fetch_result" where
  "reply_with_text t =
     Resolved \<lparr>ok = True, statusText = ''OK'',
               body = Some (JObj [(''candidates'',
                 JArr [JObj [(''content'',
                   JObj [(''parts'', JArr [JObj [(''text'', JStr t)]] [])])]] [])])\<rparr>"

definition error_reply :: "string \<Rightarrow> json \<Rightarrow> fetch_result" where
  "error_reply st b = Resolved \<lparr>ok = False, statusText = st, body = Some b\<rparr>"

text \<open>
  The fields of a report other than its id and its timestamp.
\<close>

definition core :: "(json, json) report \<Rightarrow> string \<times> string \<times> json \<times> json \<times> json \<times> json" where
  "core r = (filename r, status r, report_summary r, issues r, recommendations r,
             positive_aspects r)"

text \<open>
  Modelled from the spec: the detector of the specification's example for Python-like
  languages, a line that starts with \<open>def\<close> or \<open>class\<close>; and a source of five
  lines for the examples.
\<close>

definition python_like :: boundary_detector where
  "python_like seen l = (take 4 l = ''def '' \<or> take 6 l = ''class '')"

definition sample_source :: string where
  "sample_source = ''import os'' @ [LF] @ ''def f():'' @ [LF] @ ''  return 1'' @ [LF]
                   @ ''def g():'' @ [LF] @ ''  return 2'' @ [LF]"

section \<open>Properties of the scores\<close>

text \<open>
  C1. For every summary the quality score is
  \<open>max(0, 100 - 20*high - 10*medium - 5*low)\<close> over the summary's counts of high,
  medium and low issues, a missing count read as 0: stated for counts that are all
  present, for each count missing, and for any counts; two high, one medium and three low
  issues score 35, and a summary with no issue of any severity scores exactly 100,
  whether the counts are 0 or missing.
\<close>

theorem quality_score_formula:
  "calculateQualityScore
     (Some (s\<lparr>high_severity_issues := Some h, medium_severity_issues := Some m,
              low_severity_issues := Some l\<rparr>))
     = max 0 (100 - 20 * h - 10 * m - 5 * l)
   \<and> calculateQualityScore
       (Some (s\<lparr>high_severity_issues := None, medium_severity_issues := Some m,
                low_severity_issues := Some l\<rparr>))
     = max 0 (100 - 10 * m - 5 * l)
   \<and> calculateQualityScore
       (Some (s\<lparr>high_severity_issues := Some h, medium_severity_issues := None,
                low_severity_issues := Some l\<rparr>))
     = max 0 (100 - 20 * h - 5 * l)
   \<and> calculateQualityScore
       (Some (s\<lparr>high_severity_issues := Some h, medium_severity_issues := Some m,
                low_severity_issues := None\<rparr>))
     = max 0 (100 - 20 * h - 10 * m)
   \<and> calculateQualityScore
       (Some (s\<lparr>high_severity_issues := ho, medium_severity_issues := mo,
                low_severity_issues := lo\<rparr>))
     = max 0 (100 - 20 * (case ho of None \<Rightarrow> 0 | Some n \<Rightarrow> n)
                  - 10 * (case mo of None \<Rightarrow> 0 | Some n \<Rightarrow> n)
                  - 5 * (case lo of None \<Rightarrow> 0 | Some n \<Rightarrow> n))
   \<and> calculateQualityScore (Some (summary_of_counts (Some 2) (Some 1) (Some 3))) = 35
   \<and> calculateQualityScore (Some (summary_of_counts (Some 1) None None)) = 80
   \<and> calculateQualityScore (Some (summary_of_counts (Some 0) (Some 0) (Some 0))) = 100
   \<and> calculateQualityScore (Some (summary_of_counts None None None)) = 100"
  by (simp add: calculateQualityScore_def or0_def summary_of_counts_def Let_def mult.commute
      split: option.splits)

text \<open>
  C2, as stated: the security score would follow the quality score's penalties of 20, 10
  and 5. It does not: one high security issue scores 70, where those penalties give 80.
\<close>

theorem security_score_not_quality_formula:
  "calculateSecurityScore (Some (report_of_issues [issue_at ''security'' ''high'' 3])) = 70
   \<and> max 0 (100 - 20 * count_issues ''security'' ''high'' [issue_at ''security'' ''high'' 3]
                  - 10 * count_issues ''security'' ''medium'' [issue_at ''security'' ''high'' 3]
                  - 5 * count_issues ''security'' ''low'' [issue_at ''security'' ''high'' 3]) = 80"
  by (simp add: calculateSecurityScore_def report_of_issues_def issue_at_def count_issues_def)

text \<open>
  C2, amended. For every report with an issue list, the security score is
  \<open>max(0, 100 - 30*high - 15*medium - 5*low)\<close>, the counts being those of the issues of
  type security with that severity.
\<close>

theorem security_score_formula:
  "calculateSecurityScore (Some (r\<lparr>issues := Some is\<rparr>)) =
     max 0 (100 - 30 * count_issues ''security'' ''high'' is
                - 15 * count_issues ''security'' ''medium'' is
                - 5 * count_issues ''security'' ''low'' is)"
  by (simp add: calculateSecurityScore_def Let_def count_issues_def)

lemma security_score_bounds:
  "0 \<le> calculateSecurityScore r \<and> calculateSecurityScore r \<le> 100"
  by (simp add: calculateSecurityScore_def Let_def split: option.splits)

lemma quality_score_bounds:
  "nonneg_counts s \<Longrightarrow>
   0 \<le> calculateQualityScore (Some s) \<and> calculateQualityScore (Some s) \<le> 100"
  by (simp add: calculateQualityScore_def nonneg_counts_def Let_def)

text \<open>
  C10. Both scores are integers from 0 to 100: the quality score is 85 for a missing
  summary and lies in the range for every summary whose counts are not negative; the
  security score is 100 for a missing report and for a report without an issue list, and
  lies in the range for every report.
\<close>

theorem scores_within_bounds:
  "calculateQualityScore None = 85
   \<and> calculateSecurityScore None = 100
   \<and> calculateSecurityScore (Some (r\<lparr>issues := None\<rparr>)) = 100
   \<and> 0 \<le> calculateSecurityScore r' \<and> calculateSecurityScore r' \<le> 100
   \<and> (nonneg_counts s \<longrightarrow>
        0 \<le> calculateQualityScore (Some s) \<and> calculateQualityScore (Some s) \<le> 100)"
  using security_score_bounds[of r'] quality_score_bounds[of s]
  by (simp add: calculateQualityScore_def calculateSecurityScore_def)

theorem scores_within_bounds_witness:
  "nonneg_counts (summary_of_counts (Some 2) (Some 1) None)
   \<and> calculateQualityScore (Some (summary_of_counts (Some 2) (Some 1) None)) = 50
   \<and> 0 \<le> calculateQualityScore (Some (summary_of_counts (Some 2) (Some 1) None))
   \<and> calculateQualityScore (Some (summary_of_counts (Some 2) (Some 1) None)) \<le> 100
   \<and> nonneg_counts (summary_of_counts (Some 7) (Some 1) None)
   \<and> calculateQualityScore (Some (summary_of_counts (Some 7) (Some 1) None)) = 0"
  using scores_within_bounds[of "report_of_issues []" "Some (report_of_issues [])"
      "summary_of_counts (Some 2) (Some 1) None"]
  by (simp add: nonneg_counts_def summary_of_counts_def or0_def calculateQualityScore_def)

section \<open>Properties of the issue list\<close>

lemma mset_insertBy: "mset (insertBy cmp x xs) = add_mset x (mset xs)"
  by (induction xs) auto

lemma mset_sortBy: "mset (sortBy cmp xs) = mset xs"
  by (induction xs) (auto simp: mset_insertBy)

lemma set_insertBy: "set (insertBy cmp x xs) = insert x (set xs)"
  by (induction xs) auto

lemma set_sortBy: "set (sortBy cmp xs) = set xs"
  by (induction xs) (auto simp: set_insertBy)

text \<open>
  On issues of plain severity the comparator is the difference of the levels.
\<close>

lemma plain_rank: "plain_severity i \<Longrightarrow> severityRank i = Some (severity_level i)"
  by (auto simp: plain_severity_def severityRank_def severityOrder_def severity_level_def
      split: option.splits)

lemma plain_compare:
  "plain_severity a \<Longrightarrow> plain_severity b \<Longrightarrow>
   sortCompare compareSeverity a b = severity_level b - severity_level a"
  by (simp add: sortCompare_def compareSeverity_def plain_rank)

lemma sorted_insertBy:
  "plain_severity x \<Longrightarrow> \<forall>i \<in> set xs. plain_severity i \<Longrightarrow>
   sorted_wrt (\<lambda>a b. severity_level b \<le> severity_level a) xs \<Longrightarrow>
   sorted_wrt (\<lambda>a b. severity_level b \<le> severity_level a) (insertBy compareSeverity x xs)"
  by (induction xs) (auto simp: set_insertBy plain_compare)

lemma sorted_sortBy:
  "\<forall>i \<in> set xs. plain_severity i \<Longrightarrow>
   sorted_wrt (\<lambda>a b. severity_level b \<le> severity_level a) (sortBy compareSeverity xs)"
  by (induction xs) (auto simp: sorted_insertBy set_sortBy)

text \<open>
  Insertion passes only issues of a strictly higher level, so among the issues of one
  level the new one comes first.
\<close>

lemma filter_insertBy:
  "plain_severity x \<Longrightarrow> \<forall>i \<in> set xs. plain_severity i \<Longrightarrow>
   filter (\<lambda>i. severity_level i = k) (insertBy compareSeverity x xs) =
     (if severity_level x = k then x # filter (\<lambda>i. severity_level i = k) xs
      else filter (\<lambda>i. severity_level i = k) xs)"
  by (induction xs) (auto simp: plain_compare)

lemma filter_sortBy:
  "\<forall>i \<in> set xs. plain_severity i \<Longrightarrow>
   filter (\<lambda>i. severity_level i = k) (sortBy compareSeverity xs) =
     filter (\<lambda>i. severity_level i = k) xs"
  by (induction xs) (auto simp: filter_insertBy set_sortBy)

lemma items_issues_map: "items_issues (map IssueItem xs) = xs"
  by (induction xs) auto

lemma displayed_issues_sortBy:
  "displayed_issues (Some c) (Some is) = sortBy compareSeverity is"
  by (cases "is") (simp_all add: displayed_issues_def updateIssuesList_def items_issues_map Let_def)

text \<open>
  C3, as stated: the list would be ordered by descending severity and then by ascending
  line. It is not: two issues of high severity given with line 10 before line 5 are shown
  in that order.
\<close>

theorem issue_list_not_ordered_by_line:
  "displayed_issues (Some []) (Some [issue_at ''bug'' ''high'' 10, issue_at ''bug'' ''high'' 5])
     = [issue_at ''bug'' ''high'' 10, issue_at ''bug'' ''high'' 5]
   \<and> \<not> sorted_wrt severity_then_line
         (displayed_issues (Some [])
            (Some [issue_at ''bug'' ''high'' 10, issue_at ''bug'' ''high'' 5]))"
  by (simp add: displayed_issues_sortBy sortCompare_def compareSeverity_def
      severity_then_line_def line_le_def issue_at_def severityRank_def severityOrder_def
      severity_level_def)

text \<open>
  C3, amended. For every list of issues of plain severity (none of them names a property
  that every object inherits), the list shown is ordered by descending severity (high,
  level 3, before medium, level 2, before low, level 1, before any other severity), and
  the issues of one severity keep the order they were given in: the line number plays no
  part in the order. For every list, the list shown holds the same issues.
\<close>

theorem issue_list_order:
  "((\<forall>i \<in> set is. plain_severity i) \<longrightarrow>
      sorted_wrt (\<lambda>a b. severity_level b \<le> severity_level a)
        (displayed_issues (Some c) (Some is))
      \<and> filter (\<lambda>i. severity_level i = k) (displayed_issues (Some c) (Some is))
          = filter (\<lambda>i. severity_level i = k) is)
   \<and> mset (displayed_issues (Some c) (Some is)) = mset is
   \<and> severity_level (issue_at ty ''high'' n) = 3
   \<and> severity_level (issue_at ty ''medium'' n) = 2
   \<and> severity_level (issue_at ty ''low'' n) = 1
   \<and> plain_severity (issue_at ty ''high'' n)
   \<and> plain_severity (issue_at ty ''medium'' n)
   \<and> plain_severity (issue_at ty ''low'' n)"
proof -
  have levels: "severity_level (issue_at ty ''high'' n) = 3"
    "severity_level (issue_at ty ''medium'' n) = 2"
    "severity_level (issue_at ty ''low'' n) = 1"
    by (simp_all add: severity_level_def issue_at_def)
  have plain: "plain_severity (issue_at ty ''high'' n)"
    "plain_severity (issue_at ty ''medium'' n)"
    "plain_severity (issue_at ty ''low'' n)"
    by (simp_all add: plain_severity_def issue_at_def inheritedKeys_def)
  show ?thesis
    unfolding displayed_issues_sortBy
    using sorted_sortBy[of "is"] filter_sortBy[of "is" k] mset_sortBy[of compareSeverity "is"]
      levels plain
    by blast
qed

theorem issue_list_order_witness:
  "list_all plain_severity
     [issue_at ''style'' ''low'' 4, issue_at ''bug'' ''high'' 10,
      issue_at ''bug'' ''medium'' 2, issue_at ''security'' ''high'' 5]
   \<and> displayed_issues (Some [])
        (Some [issue_at ''style'' ''low'' 4, issue_at ''bug'' ''high'' 10,
               issue_at ''bug'' ''medium'' 2, issue_at ''security'' ''high'' 5])
       = [issue_at ''bug'' ''high'' 10, issue_at ''security'' ''high'' 5,
          issue_at ''bug'' ''medium'' 2, issue_at ''style'' ''low'' 4]
   \<and> sorted_wrt (\<lambda>a b. severity_level b \<le> severity_level a)
        (displayed_issues (Some [])
           (Some [issue_at ''style'' ''low'' 4, issue_at ''bug'' ''high'' 10,
                  issue_at ''bug'' ''medium'' 2, issue_at ''security'' ''high'' 5]))"
proof -
  let ?is = "[issue_at ''style'' ''low'' 4, issue_at ''bug'' ''high'' 10,
              issue_at ''bug'' ''medium'' 2, issue_at ''security'' ''high'' 5]"
  have p: "\<forall>i \<in> set ?is. plain_severity i"
    by (simp add: plain_severity_def issue_at_def inheritedKeys_def)
  have d: "displayed_issues (Some []) (Some ?is)
       = [issue_at ''bug'' ''high'' 10, issue_at ''security'' ''high'' 5,
          issue_at ''bug'' ''medium'' 2, issue_at ''style'' ''low'' 4]"
    by (simp add: displayed_issues_sortBy sortCompare_def compareSeverity_def issue_at_def
        severityRank_def severityOrder_def)
  from issue_list_order[of ?is "[]" 3 "''bug''" 1] p
  have "sorted_wrt (\<lambda>a b. severity_level b \<le> severity_level a)
          (displayed_issues (Some []) (Some ?is))"
    by blast
  with p d show ?thesis by (simp add: list_all_iff)
qed

text \<open>
  A severity that names an inherited property is not ranked: the comparator gives NaN
  for it, and a low issue given before it stays before a high issue given after it.
\<close>

lemma inherited_severity_not_ranked:
  "displayed_issues (Some [])
     (Some [issue_at ''bug'' ''low'' 1, issue_at ''bug'' ''constructor'' 2,
            issue_at ''bug'' ''high'' 3])
   = [issue_at ''bug'' ''low'' 1, issue_at ''bug'' ''constructor'' 2, issue_at ''bug'' ''high'' 3]"
  by (simp add: displayed_issues_sortBy sortCompare_def compareSeverity_def issue_at_def
      severityRank_def severityOrder_def inheritedKeys_def)

section \<open>Properties of the upload boundary\<close>

lemma validate_rejects_iff:
  "isl (validateUploadFile f) =
     (file_size f = 0 \<or> file_size f > maxSize \<or> file_extension f \<notin> set allowedTypes)"
  by (simp add: validateUploadFile_def Let_def)

lemma rejected_upload_steps:
  "isl (validateUploadFile f) \<Longrightarrow>
   handleFileUpload (Some f) read upload =
     [ShowUploadProgress 0 False, ShowUploadProgress 0 True, ResetCodeEditor]"
  by (cases "validateUploadFile f") (simp_all add: handleFileUpload_def upload_failed_def)

lemma sample_rejected:
  "validateUploadFile \<lparr>file_name = ''notes.txt'', file_size = 12\<rparr>
     = Inl (UnsupportedType ''.txt'')"
  by (simp add: validateUploadFile_def file_extension_def toLowerCase_def lower_char_def
      split_dot_pop_def allowedTypes_def maxSize_def)

lemma sample_accepted:
  "validateUploadFile \<lparr>file_name = ''main.py'', file_size = 12\<rparr> = Inr ()"
  by (simp add: validateUploadFile_def file_extension_def toLowerCase_def lower_char_def
      split_dot_pop_def allowedTypes_def maxSize_def)

text \<open>
  C8. The upload is rejected, by an error of \<open>validateUploadFile\<close>, exactly when the
  file is empty, is larger than 10 MB (10485760 bytes) or has an extension that is not
  allowed; a rejected upload reads, shows and sends nothing of the file, and an accepted
  one goes on to read it.
\<close>

theorem upload_rejected_before_work:
  "isl (validateUploadFile f) =
     (file_size f = 0 \<or> file_size f > maxSize \<or> file_extension f \<notin> set allowedTypes)
   \<and> maxSize = 10485760
   \<and> (isl (validateUploadFile f) \<longrightarrow>
        filter works_on_content (handleFileUpload (Some f) read upload) = [])
   \<and> (\<not> isl (validateUploadFile f) \<longrightarrow>
        filter works_on_content (handleFileUpload (Some f) read upload) \<noteq> [])"
proof -
  have a: "isl (validateUploadFile f) \<longrightarrow>
        filter works_on_content (handleFileUpload (Some f) read upload) = []"
    by (simp add: rejected_upload_steps)
  have b: "\<not> isl (validateUploadFile f) \<longrightarrow>
        filter works_on_content (handleFileUpload (Some f) read upload) \<noteq> []"
    by (cases "validateUploadFile f") (simp_all add: handleFileUpload_def)
  show ?thesis using a b validate_rejects_iff[of f] by (simp add: maxSize_def)
qed

theorem upload_rejected_before_work_witness:
  "isl (validateUploadFile \<lparr>file_name = ''notes.txt'', file_size = 12\<rparr>)
   \<and> filter works_on_content
        (handleFileUpload (Some \<lparr>file_name = ''notes.txt'', file_size = 12\<rparr>)
           (Some ''x'') (Some ''r1'')) = []
   \<and> \<not> isl (validateUploadFile \<lparr>file_name = ''main.py'', file_size = 12\<rparr>)
   \<and> filter works_on_content
        (handleFileUpload (Some \<lparr>file_name = ''main.py'', file_size = 12\<rparr>)
           (Some ''x'') (Some ''r1'')) \<noteq> []"
proof -
  have r: "isl (validateUploadFile \<lparr>file_name = ''notes.txt'', file_size = 12\<rparr>)"
    by (simp add: sample_rejected)
  have a: "\<not> isl (validateUploadFile \<lparr>file_name = ''main.py'', file_size = 12\<rparr>)"
    by (simp add: sample_accepted)
  show ?thesis
    using r a
      upload_rejected_before_work[of "\<lparr>file_name = ''notes.txt'', file_size = 12\<rparr>"
        "Some ''x''" "Some ''r1''"]
      upload_rejected_before_work[of "\<lparr>file_name = ''main.py'', file_size = 12\<rparr>"
        "Some ''x''" "Some ''r1''"]
    by blast
qed

section \<open>Properties of the retries\<close>

lemma attempts_bounds:
  "1 \<le> attempts (makeRequest H w a m) \<and> attempts (makeRequest H w a m) \<le> Suc (m - a)"
  "1 \<le> attempts (handleError H w e a m) \<and> attempts (handleError H w e a m) \<le> Suc (m - a)"
proof (induction H w a m and H w e a m rule: makeRequest_handleError.induct)
  case (1 errorHandlers w attempt maxRetries)
  then show ?case
    by (cases "fst (w attempt)") (simp_all split: if_splits sum.splits)
next
  case (2 errorHandlers w error attempt maxRetries)
  show ?case
  proof (cases "shouldRetry (retryDecision errorHandlers (snd (w attempt)) error attempt maxRetries)")
    case True
    then have lt: "attempt < maxRetries" by (rule shouldRetry_attempt)
    from True have "attempts (handleError errorHandlers w error attempt maxRetries)
        = Suc (attempts (makeRequest errorHandlers w (attempt + 1) maxRetries))"
      by (simp add: Let_def del: makeRequest.simps)
    with 2[OF True] lt show ?thesis by arith
  next
    case False
    then show ?thesis by simp
  qed
qed

lemma default_shouldRetry:
  "shouldRetry (retryDecision defaultErrorHandlers onl e a m) =
     (a < m \<and> categorizeError onl e \<in> {Network, Server, RateLimit})"
  by (cases "categorizeError onl e") (simp_all add: retryDecision_def defaultErrorHandlers_def Let_def)

lemma handleError_retries:
  "(1 < attempts (handleError H w e a m)) = shouldRetry (retryDecision H (snd (w a)) e a m)"
  using attempts_bounds(1)[of H w "a + 1" m] by (simp add: Let_def del: makeRequest.simps)

lemma response_error_retried:
  "fst (w a) = Returned r \<Longrightarrow> \<not> response_ok r \<Longrightarrow> response_error_data r \<noteq> JNull \<Longrightarrow> a < 3 \<Longrightarrow>
   (1 < attempts (makeRequest defaultErrorHandlers w a 3))
     = (\<not> snd (w a) \<or> response_status r = 429 \<or> 500 \<le> response_status r)"
proof -
  assume r: "fst (w a) = Returned r" "\<not> response_ok r" "response_error_data r \<noteq> JNull" "a < 3"
  from r(3) obtain m where m: "get_prop (response_error_data r) ''message'' = Inr m"
    by (cases "response_error_data r") auto
  have "makeRequest defaultErrorHandlers w a 3
          = handleError defaultErrorHandlers w (error_of_response r) a 3"
    using r(1,2) m by (subst makeRequest.simps) simp
  then show ?thesis
    using r(4)
    by (simp only: handleError_retries default_shouldRetry)
       (auto simp: categorizeError_def error_of_response_def)
qed

lemma thrown_error_retried:
  "fst (w a) = Threw e \<Longrightarrow> \<not> snd (w a) \<or> error_name e = ''NetworkError'' \<Longrightarrow> a < 3 \<Longrightarrow>
   1 < attempts (makeRequest defaultErrorHandlers w a 3)"
proof -
  assume r: "fst (w a) = Threw e" "\<not> snd (w a) \<or> error_name e = ''NetworkError''" "a < 3"
  have "makeRequest defaultErrorHandlers w a 3 = handleError defaultErrorHandlers w e a 3"
    using r(1) by (subst makeRequest.simps) simp
  then show ?thesis
    using r(2,3)
    by (simp only: handleError_retries default_shouldRetry) (auto simp: categorizeError_def)
qed

lemma last_attempt_not_retried:
  "3 \<le> a \<Longrightarrow> attempts (makeRequest defaultErrorHandlers w a 3) = 1"
  using attempts_bounds(1)[of defaultErrorHandlers w a 3] by simp

text \<open>
  C5, as stated: an HTTP 4xx response other than 429 would never be retried. It is, when
  the browser reports that it is offline: the error is then categorized as a network
  error whatever its status, and a request answered 404 each time is attempted three
  times, 2000 ms apart, before the error is thrown.
\<close>

theorem offline_client_error_is_retried:
  "attempts (request (always 404 False)) = 3
   \<and> delays (request (always 404 False)) = [2000, 2000]
   \<and> run_result (request (always 404 False))
       = Inl \<lparr>error_name = ''Error'', error_status = Some 404, retryAfter = None\<rparr>"
  by (simp add: request_def always_def error_of_response_def retryDecision_def
      categorizeError_def defaultErrorHandlers_def Let_def)

text \<open>
  C5, amended. A request is attempted at most 3 times in total, and the third attempt is
  never followed by another. A failed attempt before the third that met a response that
  is not ok, with an error body other than \<open>null\<close>, is followed by another exactly
  when \<open>navigator.onLine\<close> is false or the status is 429 or from 500 on: while the
  browser is online every other status, 401, 403 and the other 4xx among them, is not
  retried. A failed attempt before the third that met an exception of \<open>fetch\<close> is
  followed by another when \<open>navigator.onLine\<close> is false or the exception is named
  NetworkError.
\<close>

theorem retry_policy:
  "attempts (request w) \<le> 3
   \<and> (3 \<le> a \<longrightarrow> attempts (makeRequest defaultErrorHandlers w a 3) = 1)
   \<and> (fst (w a) = Returned r \<and> \<not> response_ok r \<and> response_error_data r \<noteq> JNull \<and> a < 3 \<longrightarrow>
        (1 < attempts (makeRequest defaultErrorHandlers w a 3))
          = (\<not> snd (w a) \<or> response_status r = 429 \<or> 500 \<le> response_status r))
   \<and> (fst (w a) = Threw e \<and> (\<not> snd (w a) \<or> error_name e = ''NetworkError'') \<and> a < 3 \<longrightarrow>
        1 < attempts (makeRequest defaultErrorHandlers w a 3))"
proof -
  have a: "attempts (request w) \<le> 3"
    using attempts_bounds(1)[of defaultErrorHandlers w 1 3] by (simp add: request_def)
  show ?thesis
    using a last_attempt_not_retried[of a w] response_error_retried[of w a r]
      thrown_error_retried[of w a e]
    by blast
qed

theorem retry_policy_witness:
  "attempts (request (always 503 True)) = 3
   \<and> 1 < attempts (makeRequest defaultErrorHandlers (always 503 True) 1 3)
   \<and> 1 < attempts (makeRequest defaultErrorHandlers (always 429 True) 2 3)
   \<and> \<not> 1 < attempts (makeRequest defaultErrorHandlers (always 404 True) 1 3)
   \<and> \<not> 1 < attempts (makeRequest defaultErrorHandlers (always 401 True) 1 3)
   \<and> attempts (makeRequest defaultErrorHandlers (always 503 True) 3 3) = 1
   \<and> 1 < attempts (makeRequest defaultErrorHandlers offline_failure 1 3)"
proof -
  let ?r = "\<lambda>s. \<lparr>response_ok = False, response_status = s, response_retry_after = None,
                 response_error_data = JObj []\<rparr>"
  have f: "\<And>s b k. fst (always s b k) = Returned (?r s)" "\<And>s b k. snd (always s b k) = b"
    by (simp_all add: always_def)
  have t: "fst (offline_failure 1) = Threw \<lparr>error_name = ''TypeError'', error_status = None,
                                         retryAfter = None\<rparr>" "\<not> snd (offline_failure 1)"
    by (simp_all add: offline_failure_def)
  have n: "attempts (request (always 503 True)) = 3"
    by (simp add: request_def always_def error_of_response_def retryDecision_def
        categorizeError_def defaultErrorHandlers_def Let_def)
  show ?thesis
    using n f t
      retry_policy[of "always 503 True" 1 "?r 503" typeError]
      retry_policy[of "always 429 True" 2 "?r 429" typeError]
      retry_policy[of "always 404 True" 1 "?r 404" typeError]
      retry_policy[of "always 401 True" 1 "?r 401" typeError]
      retry_policy[of "always 503 True" 3 "?r 503" typeError]
      retry_policy[of offline_failure 1 "?r 503"
        "\<lparr>error_name = ''TypeError'', error_status = None, retryAfter = None\<rparr>"]
    by simp
qed

section \<open>Properties of the Gemini client\<close>

lemma validateIssueCounts_status:
  "validateIssueCounts r = Inr r' \<Longrightarrow> status r' = status r"
  by (auto simp: validateIssueCounts_def Let_def split: json.splits sum.splits)

lemma build_report_status:
  "build_report e a f = Inr r \<Longrightarrow> status r = ''completed''"
  by (auto simp: build_report_def split: sum.splits dest: validateIssueCounts_status)

lemma parse_status: "status (parseAnalysisResponse J e t f) = ''completed''"
  by (auto simp: parseAnalysisResponse_def fallbackReport_def
      split: sum.splits dest: build_report_status)












lemma validateIssueCounts_core:
  "core r1 = core r2 \<Longrightarrow>
   rel_sum (=) (\<lambda>a b. core a = core b) (validateIssueCounts r1) (validateIssueCounts r2)"
  by (auto simp: validateIssueCounts_def core_def Let_def split: json.splits sum.splits)

lemma build_report_core:
  "rel_sum (=) (\<lambda>a b. core a = core b) (build_report e1 a f) (build_report e2 a f)"
proof (cases "get_prop a ''summary''")
  case (Inl err)
  then show ?thesis by (simp add: build_report_def)
next
  case (Inr summary')
  show ?thesis
    unfolding build_report_def Inr sum.case
    by (rule validateIssueCounts_core) (simp add: core_def)
qed

lemma fallback_core: "core (fallbackReport e1 k f) = core (fallbackReport e2 k' f)"
  by (simp add: core_def fallbackReport_def)

lemma parse_core:
  "core (parseAnalysisResponse J e1 t f) = core (parseAnalysisResponse J e2 t f)"
proof (cases "extract_analysis J t")
  case (Inl err)
  then show ?thesis by (simp add: parseAnalysisResponse_def fallback_core)
next
  case (Inr a)
  from build_report_core[of e1 a f e2] show ?thesis
    by (cases "build_report e1 a f"; cases "build_report e2 a f")
       (simp_all add: parseAnalysisResponse_def Inr fallback_core)
qed

lemma security_score_issues:
  "issues r = issues r' \<Longrightarrow> calculateSecurityScore (Some r) = calculateSecurityScore (Some r')"
  by (simp add: calculateSecurityScore_def)

text \<open>
  C9. The result of processing an analysis does not depend on the clock or the random
  numbers: for one parsed reply, two runs give the same issues in the same order, the
  same summary with its counts, the same status and recommendations (only the id and
  the timestamp of the report differ), hence the same list of issues shown and the same
  quality and security scores.
\<close>

theorem analysis_result_deterministic:
  "issues (parseAnalysisResponse J e1 t f) = issues (parseAnalysisResponse J e2 t f)
   \<and> report_summary (parseAnalysisResponse J e1 t f)
       = report_summary (parseAnalysisResponse J e2 t f)
   \<and> status (parseAnalysisResponse J e1 t f) = status (parseAnalysisResponse J e2 t f)
   \<and> recommendations (parseAnalysisResponse J e1 t f)
       = recommendations (parseAnalysisResponse J e2 t f)
   \<and> updateIssuesList c (issues (dashboard_view (parseAnalysisResponse J e1 t f)))
       = updateIssuesList c (issues (dashboard_view (parseAnalysisResponse J e2 t f)))
   \<and> calculateQualityScore (report_summary (dashboard_view (parseAnalysisResponse J e1 t f)))
       = calculateQualityScore (report_summary (dashboard_view (parseAnalysisResponse J e2 t f)))
   \<and> calculateSecurityScore (Some (dashboard_view (parseAnalysisResponse J e1 t f)))
       = calculateSecurityScore (Some (dashboard_view (parseAnalysisResponse J e2 t f)))"
proof -
  let ?r1 = "parseAnalysisResponse J e1 t f" and ?r2 = "parseAnalysisResponse J e2 t f"
  have c: "core ?r1 = core ?r2" by (rule parse_core)
  then have fields: "issues ?r1 = issues ?r2" "report_summary ?r1 = report_summary ?r2"
    "status ?r1 = status ?r2" "recommendations ?r1 = recommendations ?r2"
    by (simp_all add: core_def)
  have v: "issues (dashboard_view ?r1) = issues (dashboard_view ?r2)"
    "report_summary (dashboard_view ?r1) = report_summary (dashboard_view ?r2)"
    using fields by (simp_all add: dashboard_view_def)
  have s: "calculateSecurityScore (Some (dashboard_view ?r1))
       = calculateSecurityScore (Some (dashboard_view ?r2))"
    using v(1) by (rule security_score_issues)
  show ?thesis using fields v s by simp
qed






text \<open>
  C6, as stated: when the call of the provider fails, the caller would still get a report,
  with status failed. It gets none: a response that is not ok, a response without
  analysis text and a rejected request each end in an error.
\<close>

theorem provider_error_returns_no_report:
  "analyzeCode parse_examples sample_env (Some ''key'')
     (error_reply ''Service Unavailable'' (JObj [])) ''a.py''
     = Inl (GeminiApiError (Inr ''Service Unavailable''))
   \<and> analyzeCode parse_examples sample_env (Some ''key'')
       (Resolved \<lparr>ok = True, statusText = ''OK'', body = Some (JObj [])\<rparr>) ''a.py''
     = Inl NoAnalysisReceived
   \<and> analyzeCode parse_examples sample_env (Some ''key'') (Rejected ''Failed to fetch'') ''a.py''
     = Inl (FetchFailed ''Failed to fetch'')"
  by (simp add: analyzeCode_def error_reply_def)

lemma analyzeCode_Inr:
  "analyzeCode J e k fetched f = Inr r \<Longrightarrow> status r = ''completed''"
  by (auto simp: analyzeCode_def parse_status split: if_splits fetch_result.splits
      option.splits sum.splits)

lemma get_prop_not_null: "d \<noteq> JNull \<Longrightarrow> get_prop d k = Inr (opt_prop (Some d) k)"
  by (cases d) auto

lemma analyzeCode_not_ok:
  assumes "k \<noteq> []" "\<not> ok response"
  shows "(body response = None \<longrightarrow>
            analyzeCode J e (Some k) (Resolved response) f = Inl (Raised SyntaxError))
     \<and> (body response = Some JNull \<longrightarrow>
            analyzeCode J e (Some k) (Resolved response) f = Inl (Raised TypeError))
     \<and> (body response = Some d \<and> d \<noteq> JNull \<and> error_message d = Some m \<and> truthy m \<longrightarrow>
            analyzeCode J e (Some k) (Resolved response) f = Inl (GeminiApiError (Inl m)))
     \<and> (body response = Some d \<and> d \<noteq> JNull
          \<and> (error_message d = None \<or> (error_message d = Some m \<and> \<not> truthy m)) \<longrightarrow>
            analyzeCode J e (Some k) (Resolved response) f
              = Inl (GeminiApiError (Inr (statusText response))))"
  using assms
  by (auto simp: analyzeCode_def error_message_def get_prop_not_null simp del: opt_prop.simps)

lemma analyzeCode_ok:
  assumes "k \<noteq> []" "ok response"
  shows "(body response = None \<longrightarrow>
            analyzeCode J e (Some k) (Resolved response) f = Inl (Raised SyntaxError))
     \<and> (body response = Some JNull \<longrightarrow>
            analyzeCode J e (Some k) (Resolved response) f = Inl (Raised TypeError))
     \<and> (body response = Some d \<and> d \<noteq> JNull
          \<and> (analysis_text d = None \<or> (analysis_text d = Some t \<and> \<not> truthy t)) \<longrightarrow>
            analyzeCode J e (Some k) (Resolved response) f = Inl NoAnalysisReceived)
     \<and> (body response = Some d \<and> d \<noteq> JNull \<and> analysis_text d = Some t \<and> truthy t \<longrightarrow>
            analyzeCode J e (Some k) (Resolved response) f
              = Inr (parseAnalysisResponse J e t f))"
  using assms
  by (auto simp: analyzeCode_def analysis_text_def get_prop_not_null simp del: opt_prop.simps)

lemma analysis_text_shapes:
  "analysis_text (JObj []) = None"
  "analysis_text (JObj [(''candidates'', JArr [] [])]) = None"
  "analysis_text (JObj [(''candidates'', JArr [JObj []] [])]) = None"
  "analysis_text (JObj [(''candidates'', JArr [JObj [(''content'', JObj [])]] [])]) = None"
  "analysis_text (JObj [(''candidates'',
      JArr [JObj [(''content'', JObj [(''parts'', JArr [] [])])]] [])]) = None"
  "analysis_text (JObj [(''candidates'',
      JArr [JObj [(''content'', JObj [(''parts'', JArr [JObj []] [])])]] [])]) = None"
  "analysis_text (JObj [(''candidates'',
      JArr [JObj [(''content'', JObj [(''parts'', JArr [JObj [(''text'', x)]] [])])]] [])])
     = Some x"
  by (simp_all add: analysis_text_def)

text \<open>
  C6, amended. When the call of the provider fails, \<open>analyzeCode\<close> ends in an error
  and returns no report: without an API key, the error that the key is required; when
  the request is rejected, the error of \<open>fetch\<close>; when the body of the response is not
  JSON, or is \<open>null\<close>, the SyntaxError or TypeError that reading it raises; when the
  response is not ok, a Gemini API error with the message of the error body, or with the
  status text where the body has no truthy message; when the response is ok and carries
  no truthy analysis text (no candidates, an empty list of candidates, a candidate
  without content, content without parts, an empty list of parts, a part without text,
  or an empty text), the error that no analysis was received. A report is returned
  exactly when an analysis text is received, and the status of every report returned is
  completed, never failed.
\<close>

theorem failed_call_is_an_error:
  "analyzeCode J e None fetched f = Inl ApiKeyRequired
   \<and> analyzeCode J e (Some []) fetched f = Inl ApiKeyRequired
   \<and> (k \<noteq> [] \<longrightarrow> analyzeCode J e (Some k) (Rejected reason) f = Inl (FetchFailed reason))
   \<and> (k \<noteq> [] \<and> body response = None \<longrightarrow>
        analyzeCode J e (Some k) (Resolved response) f = Inl (Raised SyntaxError))
   \<and> (k \<noteq> [] \<and> body response = Some JNull \<longrightarrow>
        analyzeCode J e (Some k) (Resolved response) f = Inl (Raised TypeError))
   \<and> (k \<noteq> [] \<and> \<not> ok response \<and> body response = Some d \<and> d \<noteq> JNull
        \<and> error_message d = Some m \<and> truthy m \<longrightarrow>
        analyzeCode J e (Some k) (Resolved response) f = Inl (GeminiApiError (Inl m)))
   \<and> (k \<noteq> [] \<and> \<not> ok response \<and> body response = Some d \<and> d \<noteq> JNull
        \<and> (error_message d = None \<or> (error_message d = Some m \<and> \<not> truthy m)) \<longrightarrow>
        analyzeCode J e (Some k) (Resolved response) f
          = Inl (GeminiApiError (Inr (statusText response))))
   \<and> (k \<noteq> [] \<and> ok response \<and> body response = Some d \<and> d \<noteq> JNull
        \<and> (analysis_text d = None \<or> (analysis_text d = Some t \<and> \<not> truthy t)) \<longrightarrow>
        analyzeCode J e (Some k) (Resolved response) f = Inl NoAnalysisReceived)
   \<and> (k \<noteq> [] \<and> ok response \<and> body response = Some d \<and> d \<noteq> JNull
        \<and> analysis_text d = Some t \<and> truthy t \<longrightarrow>
        analyzeCode J e (Some k) (Resolved response) f = Inr (parseAnalysisResponse J e t f))
   \<and> (analyzeCode J e key fetched f = Inr r \<longrightarrow> status r = ''completed'' \<and> \<not> failed_report r)
   \<and> analysis_text (JObj []) = None
   \<and> analysis_text (JObj [(''candidates'', JArr [] [])]) = None
   \<and> analysis_text (JObj [(''candidates'', JArr [JObj []] [])]) = None
   \<and> analysis_text (JObj [(''candidates'', JArr [JObj [(''content'', JObj [])]] [])]) = None
   \<and> analysis_text (JObj [(''candidates'',
        JArr [JObj [(''content'', JObj [(''parts'', JArr [] [])])]] [])]) = None
   \<and> analysis_text (JObj [(''candidates'',
        JArr [JObj [(''content'', JObj [(''parts'', JArr [JObj []] [])])]] [])]) = None
   \<and> analysis_text (JObj [(''candidates'',
        JArr [JObj [(''content'', JObj [(''parts'', JArr [JObj [(''text'', x)]] [])])]] [])])
       = Some x
   \<and> \<not> truthy (JStr [])"
proof -
  have key: "analyzeCode J e None fetched f = Inl ApiKeyRequired"
    "analyzeCode J e (Some []) fetched f = Inl ApiKeyRequired"
    by (simp_all add: analyzeCode_def)
  have rej: "k \<noteq> [] \<longrightarrow> analyzeCode J e (Some k) (Rejected reason) f = Inl (FetchFailed reason)"
    by (simp add: analyzeCode_def)
  have d: "analyzeCode J e key fetched f = Inr r \<longrightarrow> status r = ''completed'' \<and> \<not> failed_report r"
    using analyzeCode_Inr[of J e key fetched f r] by (simp add: failed_report_def)
  have n: "\<not> truthy (JStr [])" by simp
  show ?thesis
    using key rej d n analysis_text_shapes(1-6) analysis_text_shapes(7)[of x]
      analyzeCode_not_ok[where k = k and response = response and J = J and e = e and f = f
        and d = d and m = m]
      analyzeCode_ok[where k = k and response = response and J = J and e = e and f = f
        and d = d and t = t]
    by (cases "ok response") blast+
qed

theorem failed_call_is_an_error_witness:
  "analyzeCode parse_examples sample_env (Some ''key'')
     (error_reply ''Too Many Requests''
        (JObj [(''error'', JObj [(''message'', JStr ''quota exceeded'')])])) ''a.py''
     = Inl (GeminiApiError (Inl (JStr ''quota exceeded'')))
   \<and> analyzeCode parse_examples sample_env (Some ''key'')
       (error_reply ''Bad Gateway'' (JObj [(''error'', JObj [(''message'', JStr [])])])) ''a.py''
     = Inl (GeminiApiError (Inr ''Bad Gateway''))
   \<and> analyzeCode parse_examples sample_env (Some ''key'')
       (Resolved \<lparr>ok = False, statusText = ''Bad Gateway'', body = None\<rparr>) ''a.py''
     = Inl (Raised SyntaxError)
   \<and> analyzeCode parse_examples sample_env (Some ''key'')
       (Resolved \<lparr>ok = True, statusText = ''OK'',
                  body = Some (JObj [(''candidates'', JArr [] [])])\<rparr>) ''a.py''
     = Inl NoAnalysisReceived
   \<and> analyzeCode parse_examples sample_env (Some ''key'') (reply_with_text []) ''a.py''
     = Inl NoAnalysisReceived
   \<and> analyzeCode parse_examples sample_env (Some ''key'') (reply_with_text ''{}'') ''a.py''
       = Inr (parseAnalysisResponse parse_examples sample_env (JStr ''{}'') ''a.py'')
   \<and> status (parseAnalysisResponse parse_examples sample_env (JStr ''{}'') ''a.py'') = ''completed''
   \<and> \<not> failed_report (parseAnalysisResponse parse_examples sample_env (JStr ''{}'') ''a.py'')"
proof -
  let ?J = parse_examples and ?e = sample_env
  let ?quota = "JObj [(''error'', JObj [(''message'', JStr ''quota exceeded'')])]"
  let ?empty = "JObj [(''error'', JObj [(''message'', JStr [])])]"
  let ?none = "JObj [(''candidates'', JArr [] [])]"
  let ?text = "\<lambda>t. JObj [(''candidates'',
      JArr [JObj [(''content'', JObj [(''parts'', JArr [JObj [(''text'', JStr t)]] [])])]] [])]"
  have k: "''key'' \<noteq> []" by simp
  have m: "error_message ?quota = Some (JStr ''quota exceeded'')" "truthy (JStr ''quota exceeded'')"
    "error_message ?empty = Some (JStr [])" "\<not> truthy (JStr [])"
    by (simp_all add: error_message_def)
  have nn: "?quota \<noteq> JNull" "?empty \<noteq> JNull" "?none \<noteq> JNull" "?text [] \<noteq> JNull"
    "?text ''{}'' \<noteq> JNull"
    by simp_all
  have tr: "truthy (JStr ''{}'')" by simp
  note t1 = failed_call_is_an_error[of ?J ?e _ "''a.py''" "''key''" _
      "\<lparr>ok = False, statusText = ''Too Many Requests'', body = Some ?quota\<rparr>" ?quota
      "JStr ''quota exceeded''"]
  note t2 = failed_call_is_an_error[of ?J ?e _ "''a.py''" "''key''" _
      "\<lparr>ok = False, statusText = ''Bad Gateway'', body = Some ?empty\<rparr>" ?empty "JStr []"]
  note t3 = failed_call_is_an_error[of ?J ?e _ "''a.py''" "''key''" _
      "\<lparr>ok = False, statusText = ''Bad Gateway'', body = None\<rparr>"]
  note t4 = failed_call_is_an_error[of ?J ?e _ "''a.py''" "''key''" _
      "\<lparr>ok = True, statusText = ''OK'', body = Some ?none\<rparr>" ?none _ _ _ _ "JStr []"]
  note t5 = failed_call_is_an_error[of ?J ?e _ "''a.py''" "''key''" _
      "\<lparr>ok = True, statusText = ''OK'', body = Some (?text [])\<rparr>" "?text []" _ "JStr []" _ _
      "JStr []"]
  note t6 = failed_call_is_an_error[of ?J ?e "reply_with_text ''{}''" "''a.py''" "''key''" _
      "\<lparr>ok = True, statusText = ''OK'', body = Some (?text ''{}'')\<rparr>" "?text ''{}''" _
      "JStr ''{}''" "Some ''key''"
      "parseAnalysisResponse parse_examples sample_env (JStr ''{}'') ''a.py''" "JStr ''{}''"]
  from t1 k m nn have w1: "analyzeCode ?J ?e (Some ''key'')
      (error_reply ''Too Many Requests'' ?quota) ''a.py''
      = Inl (GeminiApiError (Inl (JStr ''quota exceeded'')))"
    by (simp add: error_reply_def)
  from t2 k m nn have w2: "analyzeCode ?J ?e (Some ''key'')
      (error_reply ''Bad Gateway'' ?empty) ''a.py'' = Inl (GeminiApiError (Inr ''Bad Gateway''))"
    by (simp add: error_reply_def)
  from t3 k have w3: "analyzeCode ?J ?e (Some ''key'')
      (Resolved \<lparr>ok = False, statusText = ''Bad Gateway'', body = None\<rparr>) ''a.py''
      = Inl (Raised SyntaxError)"
    by simp
  from t4 k nn have w4: "analyzeCode ?J ?e (Some ''key'')
      (Resolved \<lparr>ok = True, statusText = ''OK'', body = Some ?none\<rparr>) ''a.py''
      = Inl NoAnalysisReceived"
    by simp
  from t5 k nn m(4) have w5: "analyzeCode ?J ?e (Some ''key'') (reply_with_text []) ''a.py''
      = Inl NoAnalysisReceived"
    by (simp add: reply_with_text_def)
  from t6 k nn tr have w6: "analyzeCode ?J ?e (Some ''key'') (reply_with_text ''{}'') ''a.py''
       = Inr (parseAnalysisResponse ?J ?e (JStr ''{}'') ''a.py'')"
    by (simp add: reply_with_text_def)
  with t6 have w7: "status (parseAnalysisResponse ?J ?e (JStr ''{}'') ''a.py'') = ''completed''"
    "\<not> failed_report (parseAnalysisResponse ?J ?e (JStr ''{}'') ''a.py'')"
    by simp_all
  from w1 w2 w3 w4 w5 w6 w7 show ?thesis by blast
qed

text \<open>
  The scenario of the specification for clean code: the reply
  \<open>{"issues": [], "recommendations": []}\<close> gives a completed report with no issues
  and quality score 100.
\<close>

lemma clean_code_scenario:
  "status (parseAnalysisResponse parse_examples sample_env
             (JStr ''{\"issues\": [], \"recommendations\": []}'') ''add.py'') = ''completed''
   \<and> total_issues (summary_view (report_summary (parseAnalysisResponse parse_examples sample_env
             (JStr ''{\"issues\": [], \"recommendations\": []}'') ''add.py''))) = Some 0
   \<and> calculateQualityScore (report_summary (dashboard_view (parseAnalysisResponse parse_examples
             sample_env (JStr ''{\"issues\": [], \"recommendations\": []}'') ''add.py''))) = 100"
  by (simp add: parseAnalysisResponse_def extract_analysis_def match_json_fence_def trim_def
      is_space_def parse_examples_def build_report_def validateIssueCounts_def or_else_def
      set_counts_def jnat_def defaultSummary_def dashboard_view_def summary_view_def as_int_def
      calculateQualityScore_def or0_def Let_def)

section \<open>Properties of the chunker\<close>

lemma concat_split_lines: "concat (split_lines s) = s"
  by (induction s) (auto split: list.splits)

lemma split_lines_Nil: "(split_lines s = []) = (s = [])"
  by (cases s) (auto split: list.splits)

lemma map_fst_mark: "map fst (mark d seen ls) = ls"
  by (induction ls arbitrary: seen) auto

lemma units_of_Nil: "(units_of xs = []) = (xs = [])"
  by (induction xs rule: units_of.induct) (auto split: list.splits)

lemma concat_units_of: "concat (units_of xs) = map fst xs"
  by (induction xs rule: units_of.induct) (auto simp: units_of_Nil split: list.splits)

lemma units_of_nonempty: "[] \<notin> set (units_of xs)"
  by (induction xs rule: units_of.induct) (auto split: list.splits)

lemma concat_pieces: "concat (pieces m us) = concat us"
  by (induction us) (auto simp: pieces_def)

lemma pieces_nonempty: "[] \<notin> set us \<Longrightarrow> [] \<notin> set (pieces m us)"
  by (induction us) (auto simp: pieces_def)

lemma concat_pack: "concat (pack m cur ps) = cur @ concat ps"
  by (induction m cur ps rule: pack.induct) auto

lemma pack_nonempty: "[] \<notin> set ps \<Longrightarrow> [] \<notin> set (pack m cur ps)"
  by (induction m cur ps rule: pack.induct) auto

lemma content_number_chunks:
  "concat (map content (number_chunks lang i n gs)) = concat (concat gs)"
  by (induction gs arbitrary: i n) auto

lemma ranges_number_chunks:
  "[] \<notin> set gs \<Longrightarrow> 1 \<le> n \<Longrightarrow>
   ranges_partition n (number_chunks lang i n gs) (n + length (concat gs) - 1)"
proof (induction gs arbitrary: i n)
  case Nil
  then show ?case by simp
next
  case (Cons g gs)
  then have rest: "[] \<notin> set gs" by auto
  from Cons.prems(1) obtain l ls where g: "g = l # ls" by (cases g) auto
  have "ranges_partition (n + length g) (number_chunks lang (Suc i) (n + length g) gs)
          (n + length g + length (concat gs) - 1)"
    using Cons.IH[OF rest, of "n + length g" "Suc i"] Cons.prems(2) by simp
  then show ?case by (simp add: g add.assoc)
qed

lemma index_number_chunks:
  "map sequenceIndex (number_chunks lang i n gs) = [i ..< i + length gs]"
  by (induction gs arbitrary: i n) (auto simp: upt_rec)

lemma length_number_chunks: "length (number_chunks lang i n gs) = length gs"
  by (induction gs arbitrary: i n) auto

lemma lines_number_chunks:
  "1 \<le> n \<Longrightarrow> c \<in> set (number_chunks lang i n gs) \<Longrightarrow>
   n \<le> startLine c \<and>
   content c = concat (take (endLine c + 1 - startLine c) (drop (startLine c - n) (concat gs)))"
proof (induction gs arbitrary: i n)
  case Nil
  then show ?case by simp
next
  case (Cons g gs)
  from Cons.prems(2) consider
      (head) "c = \<lparr>sequenceIndex = i, content = concat g, startLine = n,
                    endLine = n + length g - 1, language = lang\<rparr>"
    | (tail) "c \<in> set (number_chunks lang (Suc i) (n + length g) gs)"
    by auto
  then show ?case
  proof cases
    case head
    with Cons.prems(1) show ?thesis by simp
  next
    case tail
    from Cons.IH[OF _ tail] Cons.prems(1)
    have ih: "n + length g \<le> startLine c"
      "content c = concat (take (endLine c + 1 - startLine c)
                             (drop (startLine c - (n + length g)) (concat gs)))"
      by simp_all
    from ih(1) have "drop (startLine c - n) (g @ concat gs)
                     = drop (startLine c - (n + length g)) (concat gs)"
      by simp
    with ih show ?thesis by simp
  qed
qed

lemma ranges_adjacent:
  "ranges_partition n cs t \<Longrightarrow> Suc i < length cs \<Longrightarrow>
   endLine (cs ! i) + 1 = startLine (cs ! Suc i)"
proof (induction cs arbitrary: n i)
  case Nil
  then show ?case by simp
next
  case (Cons c cs)
  show ?case
  proof (cases i)
    case 0
    with Cons.prems show ?thesis by (cases cs) auto
  next
    case (Suc j)
    with Cons.IH[of "endLine c + 1" j] Cons.prems show ?thesis by simp
  qed
qed

lemma ranges_ends:
  "ranges_partition n cs t \<Longrightarrow> cs \<noteq> [] \<Longrightarrow> startLine (hd cs) = n \<and> endLine (last cs) = t"
  by (induction cs arbitrary: n) (auto split: if_splits)

lemma ranges_nonempty:
  "ranges_partition n cs t \<Longrightarrow> c \<in> set cs \<Longrightarrow> startLine c \<le> endLine c"
  by (induction cs arbitrary: n) auto

lemma chunk_as_groups:
  "chunk detect s lang m = number_chunks lang 0 1 (chunk_groups (detect lang) s m)"
  by (simp add: chunk_def)

lemma concat_chunk_groups: "concat (chunk_groups d s m) = split_lines s"
  by (simp add: chunk_groups_def concat_pack concat_pieces concat_units_of map_fst_mark)

lemma chunk_groups_nonempty: "[] \<notin> set (chunk_groups d s m)"
  by (simp add: chunk_groups_def pack_nonempty pieces_nonempty units_of_nonempty split_lines_Nil
      eq_commute[of "[]"])

text \<open>
  C7. For every source text, every detector and every size, the contents of the chunks,
  put together in sequence order, are the text; the line ranges of the chunks partition
  the lines 1 to \<open>totalLines\<close>: the first chunk starts at line 1, each chunk ends just
  before the next one starts, no range is empty, and the last chunk ends at the last
  line; the content of a chunk is the text of the lines of its range; and empty content
  yields no chunk.
\<close>

theorem chunk_round_trip:
  "concat (map content (chunk detect s lang m)) = s
   \<and> ranges_partition 1 (chunk detect s lang m) (totalLines s)
   \<and> (\<forall>i. Suc i < length (chunk detect s lang m) \<longrightarrow>
         endLine (chunk detect s lang m ! i) + 1 = startLine (chunk detect s lang m ! Suc i))
   \<and> (chunk detect s lang m \<noteq> [] \<longrightarrow>
         startLine (hd (chunk detect s lang m)) = 1
         \<and> endLine (last (chunk detect s lang m)) = totalLines s)
   \<and> (\<forall>c \<in> set (chunk detect s lang m).
         startLine c \<le> endLine c \<and> content c = lines_of_range s (startLine c) (endLine c))
   \<and> map sequenceIndex (chunk detect s lang m) = [0 ..< length (chunk detect s lang m)]
   \<and> (chunk detect [] lang m = [])"
proof -
  let ?gs = "chunk_groups (detect lang) s m"
  let ?cs = "chunk detect s lang m"
  have cs: "?cs = number_chunks lang 0 1 ?gs" by (rule chunk_as_groups)
  have a: "concat (map content ?cs) = s"
    by (simp add: cs content_number_chunks concat_chunk_groups concat_split_lines)
  have b: "ranges_partition 1 ?cs (totalLines s)"
    using ranges_number_chunks[of ?gs 1 lang 0]
    by (simp add: cs chunk_groups_nonempty concat_chunk_groups totalLines_def)
  have c: "\<forall>i. Suc i < length ?cs \<longrightarrow> endLine (?cs ! i) + 1 = startLine (?cs ! Suc i)"
    using ranges_adjacent[OF b] by blast
  have d: "?cs \<noteq> [] \<longrightarrow> startLine (hd ?cs) = 1 \<and> endLine (last ?cs) = totalLines s"
    using ranges_ends[OF b] by blast
  have e: "\<forall>c \<in> set ?cs. startLine c \<le> endLine c
             \<and> content c = lines_of_range s (startLine c) (endLine c)"
  proof
    fix c assume c: "c \<in> set ?cs"
    then have "c \<in> set (number_chunks lang 0 1 ?gs)" by (simp add: cs)
    from lines_number_chunks[OF _ this]
    have "content c = lines_of_range s (startLine c) (endLine c)"
      by (simp add: lines_of_range_def concat_chunk_groups)
    with ranges_nonempty[OF b c] show "startLine c \<le> endLine c
             \<and> content c = lines_of_range s (startLine c) (endLine c)" by simp
  qed
  have f: "map sequenceIndex ?cs = [0 ..< length ?cs]"
    by (simp add: cs index_number_chunks length_number_chunks)
  have g: "chunk detect [] lang m = []" by (simp add: chunk_def chunk_groups_def)
  from a b c d e f g show ?thesis by blast
qed

lemma sample_chunks:
  "chunk (\<lambda>lang. python_like) sample_source ''python'' 30 =
     [\<lparr>sequenceIndex = 0,
       content = ''import os'' @ [LF] @ ''def f():'' @ [LF] @ ''  return 1'' @ [LF],
       startLine = 1, endLine = 3, language = ''python''\<rparr>,
      \<lparr>sequenceIndex = 1, content = ''def g():'' @ [LF] @ ''  return 2'' @ [LF],
       startLine = 4, endLine = 5, language = ''python''\<rparr>]"
  by (simp add: chunk_def chunk_groups_def sample_source_def LF_def python_like_def pieces_def
      size_of_def)

lemma sample_totalLines: "totalLines sample_source = 5"
  by (simp add: totalLines_def sample_source_def LF_def)

theorem chunk_round_trip_witness:
  "length (chunk (\<lambda>lang. python_like) sample_source ''python'' 30) = 2
   \<and> endLine (chunk (\<lambda>lang. python_like) sample_source ''python'' 30 ! 0) + 1
       = startLine (chunk (\<lambda>lang. python_like) sample_source ''python'' 30 ! Suc 0)
   \<and> startLine (hd (chunk (\<lambda>lang. python_like) sample_source ''python'' 30)) = 1
   \<and> endLine (last (chunk (\<lambda>lang. python_like) sample_source ''python'' 30)) = 5
   \<and> concat (map content (chunk (\<lambda>lang. python_like) sample_source ''python'' 30))
       = sample_source
   \<and> hd (chunk (\<lambda>lang. python_like) sample_source ''python'' 30)
       \<in> set (chunk (\<lambda>lang. python_like) sample_source ''python'' 30)
   \<and> content (hd (chunk (\<lambda>lang. python_like) sample_source ''python'' 30))
       = lines_of_range sample_source 1 3"
proof -
  let ?cs = "chunk (\<lambda>lang. python_like) sample_source ''python'' 30"
  note t = chunk_round_trip[of "\<lambda>lang. python_like" sample_source "''python''" 30]
  have len: "length ?cs = 2" by (simp add: sample_chunks)
  then have ne: "?cs \<noteq> []" by auto
  from t have a: "concat (map content ?cs) = sample_source" by (rule conjunct1)
  from t have "\<forall>i. Suc i < length ?cs \<longrightarrow> endLine (?cs ! i) + 1 = startLine (?cs ! Suc i)"
    by blast
  with len have b: "endLine (?cs ! 0) + 1 = startLine (?cs ! Suc 0)" by simp
  from t have "?cs \<noteq> [] \<longrightarrow>
      startLine (hd ?cs) = 1 \<and> endLine (last ?cs) = totalLines sample_source"
    by blast
  with ne have c: "startLine (hd ?cs) = 1" "endLine (last ?cs) = 5"
    by (simp_all add: sample_totalLines)
  from ne have d: "hd ?cs \<in> set ?cs" by simp
  from t have "\<forall>c \<in> set ?cs. startLine c \<le> endLine c
      \<and> content c = lines_of_range sample_source (startLine c) (endLine c)"
    by blast
  with d have "content (hd ?cs) = lines_of_range sample_source (startLine (hd ?cs)) (endLine (hd ?cs))"
    by blast
  then have e: "content (hd ?cs) = lines_of_range sample_source 1 3"
    by (simp add: sample_chunks)
  from len a b c d e show ?thesis by blast
qed

end
